theory Spec2Isabelle
  imports Main "HOL-Library.AList"
begin

section \<open>JavaScript values\<close>

text \<open>
  A JavaScript string is modelled as a \<^typ>\<open>string\<close>: a list of code units below 256.
  A JSON value is what \<^verbatim>\<open>express.json()\<close> parses and what \<^verbatim>\<open>JSON.stringify\<close> prints. An object
  is an association list in property order (keys distinct). A number carries the text the
  runtime prints for it (\<^verbatim>\<open>Number.prototype.toString\<close>), since the handlers only ever print
  numbers or test them for truthiness; \<^verbatim>\<open>JSON.parse\<close> reads a literal beyond the range of a
  double, such as \<^verbatim>\<open>1e999\<close>, as the number that prints \<^verbatim>\<open>Infinity\<close>.
\<close>

datatype json =
    JNull
  | JBool bool
  | JNum string
  | JStr string
  | JArr "json list"
  | JObj "(string \<times> json) list"

type_synonym jobj = "(string \<times> json) list"

text \<open>\<^verbatim>\<open>QuoteJSONString\<close> of ECMAScript, one code unit at a time.\<close>

definition hex_digit :: "nat \<Rightarrow> char" where
  "hex_digit n = ''0123456789abcdef'' ! n"

definition quote_char :: "char \<Rightarrow> string" where
  "quote_char c =
     (if c = CHR 0x22 then [CHR 0x5C, CHR 0x22]
      else if c = CHR 0x5C then [CHR 0x5C, CHR 0x5C]
      else if c = CHR 0x08 then [CHR 0x5C, CHR ''b'']
      else if c = CHR 0x0C then [CHR 0x5C, CHR ''f'']
      else if c = CHR 0x0A then [CHR 0x5C, CHR ''n'']
      else if c = CHR 0x0D then [CHR 0x5C, CHR ''r'']
      else if c = CHR 0x09 then [CHR 0x5C, CHR ''t'']
      else if of_char c < (32::nat)
        then [CHR 0x5C, CHR ''u'', CHR ''0'', CHR ''0'',
              hex_digit (of_char c div 16), hex_digit (of_char c mod 16)]
      else [c])"

definition quote :: "string \<Rightarrow> string" where
  "quote s = [CHR 0x22] @ concat (map quote_char s) @ [CHR 0x22]"

fun join :: "string \<Rightarrow> string list \<Rightarrow> string" where
  "join sep [] = []"
| "join sep [x] = x"
| "join sep (x # y # ys) = x @ sep @ join sep (y # ys)"

text \<open>The numbers that are not finite, by what they print.\<close>

definition non_finite :: "string \<Rightarrow> bool" where
  "non_finite t = (t = ''Infinity'' \<or> t = ''-Infinity'' \<or> t = ''NaN'')"

text \<open>
  \<^verbatim>\<open>JSON.stringify(v)\<close> with no indent: no white space, properties in object order, a number
  that is not finite as \<^verbatim>\<open>null\<close>.
\<close>

fun stringify :: "json \<Rightarrow> string" where
  "stringify JNull = ''null''"
| "stringify (JBool b) = (if b then ''true'' else ''false'')"
| "stringify (JNum t) = (if non_finite t then ''null'' else t)"
| "stringify (JStr s) = quote s"
| "stringify (JArr xs) = ''['' @ join '','' (map stringify xs) @ '']''"
| "stringify (JObj kvs) =
     ''{'' @ join '','' (map (\<lambda>(k, v). quote k @ '':'' @ stringify v) kvs) @ ''}''"

subsection \<open>Reading a JSON text\<close>

text \<open>
  The subscriber's side of the wire, needed to say what a frame carries: the grammar of
  JSON texts (RFC 8259) as a reader, for texts without insignificant white space. A number
  is kept as its literal, a string as the code units it stands for (below 256).
\<close>

definition is_digit :: "char \<Rightarrow> bool" where
  "is_digit c = (48 \<le> (of_char c :: nat) \<and> (of_char c :: nat) \<le> 57)"

definition is_numchar :: "char \<Rightarrow> bool" where
  "is_numchar c = (is_digit c \<or> c = CHR ''-'' \<or> c = CHR ''+'' \<or> c = CHR ''.''
                   \<or> c = CHR ''e'' \<or> c = CHR ''E'')"

text \<open>exp = ("e" / "E") ["-" / "+"] 1*DIGIT, or nothing.\<close>

definition json_exp :: "string \<Rightarrow> bool" where
  "json_exp t =
     (case t of
        [] \<Rightarrow> True
      | c # cs \<Rightarrow>
          (c = CHR ''e'' \<or> c = CHR ''E'')
          \<and> (case cs of
                [] \<Rightarrow> False
              | s # ds \<Rightarrow>
                  if s = CHR ''-'' \<or> s = CHR ''+'' then ds \<noteq> [] \<and> list_all is_digit ds
                  else list_all is_digit cs))"

text \<open>frac = "." 1*DIGIT, or nothing; then the exponent.\<close>

definition json_frac_exp :: "string \<Rightarrow> bool" where
  "json_frac_exp t =
     (case t of
        [] \<Rightarrow> True
      | c # cs \<Rightarrow>
          if c = CHR ''.''
          then takeWhile is_digit cs \<noteq> [] \<and> json_exp (dropWhile is_digit cs)
          else json_exp t)"

text \<open>int = "0" / (digit1-9 *DIGIT); then the fraction and the exponent.\<close>

definition json_int_frac_exp :: "string \<Rightarrow> bool" where
  "json_int_frac_exp t =
     (takeWhile is_digit t \<noteq> []
      \<and> (takeWhile is_digit t = ''0'' \<or> hd t \<noteq> CHR ''0'')
      \<and> json_frac_exp (dropWhile is_digit t))"

text \<open>number = [ "-" ] int [ frac ] [ exp ] (RFC 8259, section 6).\<close>

definition json_number :: "string \<Rightarrow> bool" where
  "json_number t =
     (list_all is_numchar t
      \<and> (case t of
            [] \<Rightarrow> False
          | c # cs \<Rightarrow> if c = CHR ''-'' then json_int_frac_exp cs else json_int_frac_exp t))"

text \<open>A hexadecimal digit of a four-digit escape, in either case.\<close>

definition hex_value :: "char \<Rightarrow> nat option" where
  "hex_value c =
     (let n = (of_char c :: nat)
      in if 48 \<le> n \<and> n \<le> 57 then Some (n - 48)
         else if 97 \<le> n \<and> n \<le> 102 then Some (n - 87)
         else if 65 \<le> n \<and> n \<le> 70 then Some (n - 55)
         else None)"

text \<open>The character an escape letter stands for.\<close>

definition unescape :: "char \<Rightarrow> char option" where
  "unescape c =
     (if c = CHR 0x22 then Some (CHR 0x22)
      else if c = CHR 0x5C then Some (CHR 0x5C)
      else if c = CHR ''/'' then Some (CHR ''/'')
      else if c = CHR ''b'' then Some (CHR 0x08)
      else if c = CHR ''f'' then Some (CHR 0x0C)
      else if c = CHR ''n'' then Some (CHR 0x0A)
      else if c = CHR ''r'' then Some (CHR 0x0D)
      else if c = CHR ''t'' then Some (CHR 0x09)
      else None)"

definition hex4 :: "char \<Rightarrow> char \<Rightarrow> char \<Rightarrow> char \<Rightarrow> nat option" where
  "hex4 a b c d =
     (case (hex_value a, hex_value b, hex_value c, hex_value d) of
        (Some w, Some x, Some y, Some z) \<Rightarrow> Some (((w * 16 + x) * 16 + y) * 16 + z)
      | _ \<Rightarrow> None)"

text \<open>
  The characters of a string after its opening quotation mark, up to the closing one:
  the string they stand for and the text that follows.
\<close>

fun read_chars :: "string \<Rightarrow> (string \<times> string) option" where
  "read_chars [] = None"
| "read_chars (c # cs) =
     (if c = CHR 0x22 then Some ([], cs)
      else if c = CHR 0x5C then
        (case cs of
           [] \<Rightarrow> None
         | e # cs1 \<Rightarrow>
             if e = CHR ''u'' then
               (case cs1 of
                  h1 # h2 # h3 # h4 # cs2 \<Rightarrow>
                    (case hex4 h1 h2 h3 h4 of
                       None \<Rightarrow> None
                     | Some n \<Rightarrow>
                         if n < 256
                         then (case read_chars cs2 of
                                 None \<Rightarrow> None
                               | Some (s, rest) \<Rightarrow> Some (char_of n # s, rest))
                         else None)
                | _ \<Rightarrow> None)
             else
               (case unescape e of
                  None \<Rightarrow> None
                | Some x \<Rightarrow>
                    (case read_chars cs1 of
                       None \<Rightarrow> None
                     | Some (s, rest) \<Rightarrow> Some (x # s, rest))))
      else if (of_char c :: nat) < 32 then None
      else (case read_chars cs of
              None \<Rightarrow> None
            | Some (s, rest) \<Rightarrow> Some (c # s, rest)))"

text \<open>
  A value, the elements of an array after its first, a member \<^verbatim>\<open>"key":value\<close>, the members of
  an object after its first; each with the text that follows. The first argument bounds
  the nesting and the number of elements: every recursive call comes after a character has
  been read, so the length of the text is always enough.
\<close>

fun read_value :: "nat \<Rightarrow> string \<Rightarrow> (json \<times> string) option"
  and read_elements :: "nat \<Rightarrow> string \<Rightarrow> (json list \<times> string) option"
  and read_member :: "nat \<Rightarrow> string \<Rightarrow> ((string \<times> json) \<times> string) option"
  and read_members :: "nat \<Rightarrow> string \<Rightarrow> ((string \<times> json) list \<times> string) option" where
  "read_value 0 text = None"
| "read_value (Suc n) text =
     (case text of
        [] \<Rightarrow> None
      | c # cs \<Rightarrow>
          if c = CHR ''['' then
            (case cs of
               [] \<Rightarrow> None
             | c1 # cs1 \<Rightarrow>
                 if c1 = CHR '']'' then Some (JArr [], cs1)
                 else (case read_value n cs of
                         None \<Rightarrow> None
                       | Some (v, rest) \<Rightarrow>
                           (case read_elements n rest of
                              None \<Rightarrow> None
                            | Some (vs, rest1) \<Rightarrow> Some (JArr (v # vs), rest1))))
          else if c = CHR ''{'' then
            (case cs of
               [] \<Rightarrow> None
             | c1 # cs1 \<Rightarrow>
                 if c1 = CHR ''}'' then Some (JObj [], cs1)
                 else (case read_member n cs of
                         None \<Rightarrow> None
                       | Some (kv, rest) \<Rightarrow>
                           (case read_members n rest of
                              None \<Rightarrow> None
                            | Some (kvs, rest1) \<Rightarrow> Some (JObj (kv # kvs), rest1))))
          else if c = CHR 0x22 then
            (case read_chars cs of
               None \<Rightarrow> None
             | Some (s, rest) \<Rightarrow> Some (JStr s, rest))
          else if take 4 text = ''null'' then Some (JNull, drop 4 text)
          else if take 4 text = ''true'' then Some (JBool True, drop 4 text)
          else if take 5 text = ''false'' then Some (JBool False, drop 5 text)
          else if json_number (takeWhile is_numchar text)
            then Some (JNum (takeWhile is_numchar text), dropWhile is_numchar text)
          else None)"
| "read_elements 0 text = None"
| "read_elements (Suc n) text =
     (case text of
        [] \<Rightarrow> None
      | c # cs \<Rightarrow>
          if c = CHR '']'' then Some ([], cs)
          else if c = CHR '','' then
            (case read_value n cs of
               None \<Rightarrow> None
             | Some (v, rest) \<Rightarrow>
                 (case read_elements n rest of
                    None \<Rightarrow> None
                  | Some (vs, rest1) \<Rightarrow> Some (v # vs, rest1)))
          else None)"
| "read_member 0 text = None"
| "read_member (Suc n) text =
     (case text of
        [] \<Rightarrow> None
      | c # cs \<Rightarrow>
          if c = CHR 0x22 then
            (case read_chars cs of
               None \<Rightarrow> None
             | Some (k, rest) \<Rightarrow>
                 (case rest of
                    [] \<Rightarrow> None
                  | c1 # rest1 \<Rightarrow>
                      if c1 = CHR '':'' then
                        (case read_value n rest1 of
                           None \<Rightarrow> None
                         | Some (v, rest2) \<Rightarrow> Some ((k, v), rest2))
                      else None))
          else None)"
| "read_members 0 text = None"
| "read_members (Suc n) text =
     (case text of
        [] \<Rightarrow> None
      | c # cs \<Rightarrow>
          if c = CHR ''}'' then Some ([], cs)
          else if c = CHR '','' then
            (case read_member n cs of
               None \<Rightarrow> None
             | Some (kv, rest) \<Rightarrow>
                 (case read_members n rest of
                    None \<Rightarrow> None
                  | Some (kvs, rest1) \<Rightarrow> Some (kv # kvs, rest1)))
          else None)"

text \<open>A text is a JSON text when it is one value and nothing more.\<close>

definition json_parse :: "string \<Rightarrow> json option" where
  "json_parse text =
     (case read_value (length text) text of
        Some (v, []) \<Rightarrow> Some v
      | _ \<Rightarrow> None)"

text \<open>What a value is once printed and read back: a number that is not finite has become \<^verbatim>\<open>null\<close>.\<close>

fun as_json :: "json \<Rightarrow> json" where
  "as_json (JNum t) = (if non_finite t then JNull else JNum t)"
| "as_json (JArr xs) = JArr (map as_json xs)"
| "as_json (JObj kvs) = JObj (map (\<lambda>(k, v). (k, as_json v)) kvs)"
| "as_json v = v"

text \<open>Every number in the value carries a text the runtime prints for a number.\<close>

fun printable :: "json \<Rightarrow> bool" where
  "printable (JNum t) = (non_finite t \<or> json_number t)"
| "printable (JArr xs) = list_all printable xs"
| "printable (JObj kvs) = list_all (\<lambda>(k, v). printable v) kvs"
| "printable v = True"

text \<open>What follows a value in a text: nothing, or a character no number contains.\<close>

definition ends_number :: "string \<Rightarrow> bool" where
  "ends_number rest = (case rest of [] \<Rightarrow> True | c # cs \<Rightarrow> \<not> is_numchar c)"

text \<open>No number in the value is infinite or \<^verbatim>\<open>NaN\<close>.\<close>

fun all_finite :: "json \<Rightarrow> bool" where
  "all_finite (JNum t) = (\<not> non_finite t)"
| "all_finite (JArr xs) = list_all all_finite xs"
| "all_finite (JObj kvs) = list_all (\<lambda>(k, v). all_finite v) kvs"
| "all_finite v = True"

section \<open>routes/events.js: the registry of SSE clients\<close>

text \<open>What a sink can throw: from \<^verbatim>\<open>write\<close>, from \<^verbatim>\<open>end\<close>.\<close>

datatype error = WriteError | EndError

text \<open>
  What happened on one \<^verbatim>\<open>res\<close> object, oldest first: the head, every \<^verbatim>\<open>write\<close> call with
  its chunk (accepted or thrown), every \<^verbatim>\<open>end\<close> call (returned or thrown).
\<close>

datatype io = WroteHead nat | Wrote string | WriteThrew string | Ended | EndThrew

text \<open>
  The response object of one HTTP request. \<open>faults\<close> and \<open>end_throws\<close> are the environment:
  \<open>faults\<close> scripts the coming \<^verbatim>\<open>write\<close> calls (\<open>True\<close>: that call throws; a script that has
  run out: the call is accepted), \<open>end_throws\<close> says whether \<^verbatim>\<open>end()\<close> throws.
\<close>

record server_response =
  destroyed :: bool
  trace :: "io list"
  faults :: "bool list"
  end_throws :: bool

definition res_write :: "server_response \<Rightarrow> string \<Rightarrow> error option \<times> server_response" where
  "res_write res chunk =
     (case faults res of
        [] \<Rightarrow> (None, res\<lparr>trace := trace res @ [Wrote chunk]\<rparr>)
      | f # fs \<Rightarrow>
          if f then (Some WriteError, res\<lparr>trace := trace res @ [WriteThrew chunk], faults := fs\<rparr>)
          else (None, res\<lparr>trace := trace res @ [Wrote chunk], faults := fs\<rparr>))"

definition res_end :: "server_response \<Rightarrow> error option \<times> server_response" where
  "res_end res =
     (if end_throws res then (Some EndError, res\<lparr>trace := trace res @ [EndThrew]\<rparr>)
      else (None, res\<lparr>trace := trace res @ [Ended]\<rparr>))"

text \<open>The chunks a sink has accepted, in order.\<close>

fun written :: "io list \<Rightarrow> string list" where
  "written [] = []"
| "written (Wrote chunk # es) = chunk # written es"
| "written (_ # es) = written es"

text \<open>
  \<^verbatim>\<open>const client = { id: Date.now(), response: res, lastPing: Date.now() }\<close>.
  \<^verbatim>\<open>response\<close> is always the request's own \<^verbatim>\<open>res\<close> object and is never reassigned, so the
  test \<^verbatim>\<open>client.response &&\<close> of the source is always true.
\<close>

record client =
  client_id :: int
  response :: server_response
  lastPing :: int

text \<open>
  \<^verbatim>\<open>sseClients\<close> is a \<^verbatim>\<open>Set\<close> of client objects: membership is by object identity, iteration
  is in insertion order. An object is named by its reference; the heap maps references
  to objects. \<open>intervals\<close> holds the heartbeat timers that are still scheduled, each named
  by the client it was created for.
\<close>

type_synonym ref = nat

record state =
  heap :: "ref \<Rightarrow> client"
  next_ref :: ref
  sseClients :: "ref list"
  intervals :: "ref list"

definition set_add :: "ref \<Rightarrow> ref list \<Rightarrow> ref list" where
  "set_add r rs = (if r \<in> set rs then rs else rs @ [r])"

definition set_delete :: "ref \<Rightarrow> ref list \<Rightarrow> ref list" where
  "set_delete r rs = removeAll r rs"

definition clearInterval :: "ref \<Rightarrow> ref list \<Rightarrow> ref list" where
  "clearInterval r ts = removeAll r ts"

definition set_response :: "ref \<Rightarrow> server_response \<Rightarrow> state \<Rightarrow> state" where
  "set_response r res s = s\<lparr>heap := (heap s)(r := (heap s r)\<lparr>response := res\<rparr>)\<rparr>"

text \<open>
  \<^verbatim>\<open>sseClients.forEach(callback)\<close>. Every callback of this module removes at most the
  element it is visiting, which does not disturb the visit of the others, so the
  iteration runs over the members at call time. An exception leaving a callback would
  end the iteration and leave \<^verbatim>\<open>forEach\<close>.
\<close>

fun forEach ::
  "(ref \<Rightarrow> state \<Rightarrow> error option \<times> state) \<Rightarrow> ref list \<Rightarrow> state \<Rightarrow> error option \<times> state" where
  "forEach f [] s = (None, s)"
| "forEach f (r # rs) s =
     (case f r s of
        (Some e, s') \<Rightarrow> (Some e, s')
      | (None, s') \<Rightarrow> forEach f rs s')"

subsection \<open>Admission: \<^verbatim>\<open>router.get('/')\<close>\<close>

definition connected_frame :: "string \<Rightarrow> string" where
  "connected_frame stamp =
     ''data: '' @ stringify (JObj [(''type'', JStr ''connected''),
                                    (''message'', JStr ''Real-time connection established''),
                                    (''timestamp'', JStr stamp)]) @ ''\<newline>\<newline>''"

text \<open>
  \<open>t_id\<close> and \<open>t_ping\<close> are the two readings of \<^verbatim>\<open>Date.now()\<close>, \<open>stamp\<close> the reading of
  \<^verbatim>\<open>new Date().toISOString()\<close>. The first \<^verbatim>\<open>res.write\<close> is outside any \<^verbatim>\<open>try\<close>: when it throws,
  the handler is left with the client registered and no heartbeat timer.
\<close>

definition get_events ::
  "server_response \<Rightarrow> int \<Rightarrow> int \<Rightarrow> string \<Rightarrow> state \<Rightarrow> error option \<times> state" where
  "get_events res t_id t_ping stamp s =
     (let res0 = res\<lparr>trace := trace res @ [WroteHead 200]\<rparr>;
          r = next_ref s;
          c = \<lparr>client_id = t_id, response = res0, lastPing = t_ping\<rparr>;
          s1 = s\<lparr>heap := (heap s)(r := c), next_ref := Suc r,
                 sseClients := set_add r (sseClients s)\<rparr>
      in case res_write res0 (connected_frame stamp) of
           (Some e, res1) \<Rightarrow> (Some e, set_response r res1 s1)
         | (None, res1) \<Rightarrow>
             (None, (set_response r res1 s1)\<lparr>intervals := intervals s1 @ [r]\<rparr>))"

subsection \<open>The heartbeat timer of one client\<close>

definition heartbeat_frame :: "string \<Rightarrow> string" where
  "heartbeat_frame stamp =
     ''data: '' @ stringify (JObj [(''type'', JStr ''heartbeat''),
                                    (''timestamp'', JStr stamp)]) @ ''\<newline>\<newline>''"

text \<open>One firing of the \<^verbatim>\<open>setInterval\<close> callback created for client \<open>r\<close>.\<close>

definition heartbeat :: "ref \<Rightarrow> string \<Rightarrow> int \<Rightarrow> state \<Rightarrow> error option \<times> state" where
  "heartbeat r stamp now s =
     (case res_write (response (heap s r)) (heartbeat_frame stamp) of
        (None, res1) \<Rightarrow>
          (None, s\<lparr>heap := (heap s)(r := (heap s r)\<lparr>response := res1, lastPing := now\<rparr>)\<rparr>)
      | (Some e, res1) \<Rightarrow>
          (None, (set_response r res1 s)\<lparr>intervals := clearInterval r (intervals s),
                                         sseClients := set_delete r (sseClients s)\<rparr>))"

subsection \<open>The \<^verbatim>\<open>close\<close> and \<^verbatim>\<open>error\<close> handlers of the request\<close>

definition on_close :: "ref \<Rightarrow> state \<Rightarrow> error option \<times> state" where
  "on_close r s =
     (None, s\<lparr>intervals := clearInterval r (intervals s),
              sseClients := set_delete r (sseClients s)\<rparr>)"

definition on_error :: "ref \<Rightarrow> state \<Rightarrow> error option \<times> state" where
  "on_error r s =
     (None, s\<lparr>intervals := clearInterval r (intervals s),
              sseClients := set_delete r (sseClients s)\<rparr>)"

subsection \<open>\<^verbatim>\<open>broadcastToClients\<close>\<close>

definition event_message :: "string \<Rightarrow> json \<Rightarrow> string \<Rightarrow> string" where
  "event_message eventType data stamp =
     stringify (JObj [(''type'', JStr eventType), (''data'', data), (''timestamp'', JStr stamp)])"

text \<open>The two writes of the \<^verbatim>\<open>try\<close> block; the second is not reached when the first throws.\<close>

definition write_event ::
  "string \<Rightarrow> string \<Rightarrow> server_response \<Rightarrow> error option \<times> server_response" where
  "write_event eventType message res =
     (case res_write res (''event: '' @ eventType @ ''\<newline>'') of
        (Some e, res1) \<Rightarrow> (Some e, res1)
      | (None, res1) \<Rightarrow> res_write res1 (''data: '' @ message @ ''\<newline>\<newline>''))"

definition broadcast_client :: "string \<Rightarrow> string \<Rightarrow> ref \<Rightarrow> state \<Rightarrow> error option \<times> state" where
  "broadcast_client eventType message r s =
     (if \<not> destroyed (response (heap s r)) then
        (case write_event eventType message (response (heap s r)) of
           (None, res1) \<Rightarrow> (None, set_response r res1 s)
         | (Some e, res1) \<Rightarrow>
             (None, (set_response r res1 s)\<lparr>sseClients := set_delete r (sseClients s)\<rparr>))
      else (None, s\<lparr>sseClients := set_delete r (sseClients s)\<rparr>))"

definition broadcastToClients :: "string \<Rightarrow> json \<Rightarrow> string \<Rightarrow> state \<Rightarrow> error option \<times> state" where
  "broadcastToClients eventType data stamp s =
     forEach (broadcast_client eventType (event_message eventType data stamp)) (sseClients s) s"

subsection \<open>\<^verbatim>\<open>sendToClient\<close>\<close>

definition sendToClient ::
  "int \<Rightarrow> string \<Rightarrow> json \<Rightarrow> string \<Rightarrow> state \<Rightarrow> error option \<times> state" where
  "sendToClient clientId eventType data stamp s =
     (case find (\<lambda>r. client_id (heap s r) = clientId) (sseClients s) of
        None \<Rightarrow> (None, s)
      | Some r \<Rightarrow>
          if \<not> destroyed (response (heap s r)) then
            (case write_event eventType (event_message eventType data stamp) (response (heap s r)) of
               (None, res1) \<Rightarrow> (None, set_response r res1 s)
             | (Some e, res1) \<Rightarrow>
                 (None, (set_response r res1 s)\<lparr>sseClients := set_delete r (sseClients s)\<rparr>))
          else (None, s))"

subsection \<open>\<^verbatim>\<open>getConnectionStats\<close>\<close>

record stats =
  totalConnections :: nat
  activeConnections :: nat
  oldConnections :: nat

text \<open>
  The filter callback reads \<^verbatim>\<open>Date.now()\<close> once for every client: \<open>clock k\<close> is the reading
  taken for the client at position \<open>k\<close> of the set.
\<close>

definition getConnectionStats :: "(nat \<Rightarrow> int) \<Rightarrow> state \<Rightarrow> stats" where
  "getConnectionStats clock s =
     \<lparr>totalConnections = length (sseClients s),
      activeConnections =
        length (filter (\<lambda>r. \<not> destroyed (response (heap s r))) (sseClients s)),
      oldConnections =
        length (filter (\<lambda>(k, r). clock k - lastPing (heap s r) > 60000)
                  (enumerate 0 (sseClients s)))\<rparr>"

subsection \<open>\<^verbatim>\<open>cleanupConnections\<close>\<close>

definition staleTimeout :: int where
  "staleTimeout = 5 * 60 * 1000"

definition cleanup_client :: "int \<Rightarrow> ref \<Rightarrow> state \<Rightarrow> error option \<times> state" where
  "cleanup_client now r s =
     (if now - lastPing (heap s r) > staleTimeout then
        (let s1 = (if \<not> destroyed (response (heap s r))
                   then set_response r (snd (res_end (response (heap s r)))) s
                   else s)
         in (None, s1\<lparr>sseClients := set_delete r (sseClients s1)\<rparr>))
      else (None, s))"

definition cleanupConnections :: "int \<Rightarrow> state \<Rightarrow> error option \<times> state" where
  "cleanupConnections now s = forEach (cleanup_client now) (sseClients s) s"

text \<open>The module as it is after loading: no client, no timer.\<close>

definition init :: state where
  "init = \<lparr>heap = (\<lambda>_. \<lparr>client_id = 0,
                         response = \<lparr>destroyed = False, trace = [], faults = [],
                                     end_throws = False\<rparr>,
                         lastPing = 0\<rparr>),
           next_ref = 0, sseClients = [], intervals = []\<rparr>"

subsection \<open>Reading a trace, and small registries to run the module on\<close>

text \<open>The number of \<^verbatim>\<open>end()\<close> calls made on a sink so far.\<close>

fun end_calls :: "io list \<Rightarrow> nat" where
  "end_calls [] = 0"
| "end_calls (Ended # es) = Suc (end_calls es)"
| "end_calls (EndThrew # es) = Suc (end_calls es)"
| "end_calls (_ # es) = end_calls es"

text \<open>The response object of a request that has just arrived, on a healthy transport.\<close>

definition fresh_response :: server_response where
  "fresh_response = \<lparr>destroyed = False, trace = [], faults = [], end_throws = False\<rparr>"

text \<open>One subscriber admitted at clock reading 1700000000000.\<close>

definition one_client :: state where
  "one_client =
     snd (get_events fresh_response 1700000000000 1700000000000 ''2023-11-14T22:13:20.000Z'' init)"

text \<open>A second subscriber admitted within the same millisecond.\<close>

definition two_clients :: state where
  "two_clients =
     snd (get_events fresh_response 1700000000000 1700000000000 ''2023-11-14T22:13:20.000Z''
            one_client)"

text \<open>A subscriber whose transport accepts the admission frame and throws on the next write.\<close>

definition broken_response :: server_response where
  "broken_response =
     \<lparr>destroyed = False, trace = [], faults = [False, True], end_throws = False\<rparr>"

definition broken_client :: state where
  "broken_client =
     snd (get_events broken_response 1700000000000 1700000000000 ''2023-11-14T22:13:20.000Z'' init)"

text \<open>
  The subscriber of \<open>one_client\<close> after its transport has been destroyed, before the \<^verbatim>\<open>close\<close>
  event is handled.
\<close>

definition destroyed_client :: state where
  "destroyed_client =
     one_client\<lparr>heap := (heap one_client)
       (0 := (heap one_client 0)\<lparr>response := (response (heap one_client 0))\<lparr>destroyed := True\<rparr>\<rparr>)\<rparr>"

text \<open>A clock that gives the same reading to every \<^verbatim>\<open>Date.now()\<close> call of one pass.\<close>

definition steady_clock :: "int \<Rightarrow> nat \<Rightarrow> int" where
  "steady_clock now k = now"

text \<open>Two subscribers: the sink of the first throws on its next write, the second is healthy.\<close>

definition two_sinks :: state where
  "two_sinks =
     snd (get_events fresh_response 1700000000007 1700000000007 ''2023-11-14T22:13:20.007Z''
            broken_client)"

text \<open>
  A payload with a quotation mark, a backslash, a line feed and a control character in a
  string, two finite numbers, a boolean and a \<^verbatim>\<open>null\<close>.
\<close>

definition sample_payload :: json where
  "sample_payload =
     JObj [(''request_id'', JStr ''DR-2024-000001''),
           (''note'', JStr (''5'' @ [CHR 0x22] @ '' x 7'' @ [CHR 0x5C, CHR 0x0A, CHR 0x1F])),
           (''count'', JNum ''3''), (''ratio'', JNum ''1.5e+21''),
           (''tags'', JArr [JBool True, JNull])]"

text \<open>A payload with the number that a body reading \<^verbatim>\<open>"weight": 1e999\<close> is parsed to.\<close>

definition overflow_payload :: json where
  "overflow_payload =
     JObj [(''request_id'', JStr ''DR-2024-000001''), (''weight'', JNum ''Infinity'')]"

text \<open>
  What the set and the allocation of objects guarantee: no client is in the registry
  twice, and every registered client is an object that has been created.
\<close>

definition registry_ok :: "state \<Rightarrow> bool" where
  "registry_ok s = (distinct (sseClients s) \<and> list_all (\<lambda>r. r < next_ref s) (sseClients s))"

section \<open>routes/requests.js: the mutation routes\<close>

subsection \<open>JavaScript operators on JSON values\<close>

text \<open>
  Truthiness: \<^verbatim>\<open>!v\<close> is \<open>\<not> truthy v\<close>, and \<^verbatim>\<open>v || w\<close> is \<open>v\<close> when \<open>truthy v\<close>. The number zero
  prints as \<^verbatim>\<open>0\<close>. A property the object does not have reads as \<^verbatim>\<open>undefined\<close>, which is not
  truthy; it is the \<open>None\<close> of \<^const>\<open>map_of\<close>.
\<close>

definition truthy :: "json \<Rightarrow> bool" where
  "truthy v =
     (case v of
        JNull \<Rightarrow> False
      | JBool b \<Rightarrow> b
      | JNum t \<Rightarrow> t \<noteq> ''0'' \<and> t \<noteq> ''NaN''
      | JStr s \<Rightarrow> s \<noteq> []
      | JArr _ \<Rightarrow> True
      | JObj _ \<Rightarrow> True)"

text \<open>
  What a route can throw: a \<^verbatim>\<open>TypeError\<close> with its message, or the error object of a Supabase
  answer with its code and message.
\<close>

datatype thrown = TypeError string | PostgrestError string string

text \<open>Steps run in order; the first that throws ends the run.\<close>

fun sequence :: "('e + 'a) list \<Rightarrow> 'e + 'a list" where
  "sequence [] = Inr []"
| "sequence (x # xs) =
     (case x of
        Inl err \<Rightarrow> Inl err
      | Inr a \<Rightarrow> (case sequence xs of Inl err \<Rightarrow> Inl err | Inr as \<Rightarrow> Inr (a # as)))"

text \<open>
  \<^verbatim>\<open>String(v)\<close>, as a template literal and \<^verbatim>\<open>RegExp.prototype.test\<close> apply it. An array is its
  elements joined by commas, \<^verbatim>\<open>null\<close> elements empty. An object is \<^verbatim>\<open>[object Object]\<close>, by the
  \<^verbatim>\<open>toString\<close> it inherits; when the object has a member \<^verbatim>\<open>toString\<close> of its own, which no JSON
  value can make callable, the conversion throws.
\<close>

fun to_string :: "json \<Rightarrow> thrown + string" where
  "to_string JNull = Inr ''null''"
| "to_string (JBool b) = Inr (if b then ''true'' else ''false'')"
| "to_string (JNum t) = Inr t"
| "to_string (JStr s) = Inr s"
| "to_string (JArr xs) =
     (case sequence (map (\<lambda>x. case x of JNull \<Rightarrow> Inr [] | _ \<Rightarrow> to_string x) xs) of
        Inl err \<Rightarrow> Inl err
      | Inr texts \<Rightarrow> Inr (join '','' texts))"
| "to_string (JObj kvs) =
     (if map_of kvs ''toString'' = None then Inr ''[object Object]''
      else Inl (TypeError ''Cannot convert object to primitive value''))"

text \<open>A substitution of a template literal; a property that is missing reads \<^verbatim>\<open>undefined\<close>.\<close>

definition interpolate :: "json option \<Rightarrow> thrown + string" where
  "interpolate p = (case p of None \<Rightarrow> Inr ''undefined'' | Some v \<Rightarrow> to_string v)"

text \<open>A property whose conversion cannot throw: missing, or not an array or an object.\<close>

definition plain :: "json option \<Rightarrow> bool" where
  "plain p = (case p of Some (JArr xs) \<Rightarrow> False | Some (JObj kvs) \<Rightarrow> False | _ \<Rightarrow> True)"

text \<open>
  \<^verbatim>\<open>v.name\<close> for one of the names the routes read (\<^verbatim>\<open>request_id\<close>, \<^verbatim>\<open>status\<close>): a \<^verbatim>\<open>TypeError\<close>
  on \<^verbatim>\<open>null\<close>, the member on an object, \<^verbatim>\<open>undefined\<close> on any other value.
\<close>

definition get_prop :: "json \<Rightarrow> string \<Rightarrow> thrown + json option" where
  "get_prop v name =
     (case v of
        JNull \<Rightarrow> Inl (TypeError (''Cannot read properties of null (reading '' @ [CHR 0x27] @ name
                                   @ [CHR 0x27] @ '')''))
      | JObj kvs \<Rightarrow> Inr (map_of kvs name)
      | _ \<Rightarrow> Inr None)"

text \<open>
  The order of the properties of an object: the array indices (the canonical decimal texts
  of the integers up to 4294967294) first, ascending, then the other names in the order of
  their creation. Setting a property that exists keeps its place.
\<close>

definition decimal :: "string \<Rightarrow> nat" where
  "decimal k = foldl (\<lambda>n c. 10 * n + (of_char c - 48)) 0 k"

definition is_index :: "string \<Rightarrow> bool" where
  "is_index k =
     (k \<noteq> [] \<and> list_all is_digit k \<and> (k = ''0'' \<or> hd k \<noteq> CHR ''0'')
      \<and> decimal k \<le> 4294967294)"

fun insert_index :: "string \<Rightarrow> json \<Rightarrow> jobj \<Rightarrow> jobj" where
  "insert_index k v [] = [(k, v)]"
| "insert_index k v ((k', v') # kvs) =
     (if is_index k' \<and> decimal k' < decimal k then (k', v') # insert_index k v kvs
      else (k, v) # (k', v') # kvs)"

definition set_prop :: "string \<Rightarrow> json \<Rightarrow> jobj \<Rightarrow> jobj" where
  "set_prop k v obj =
     (if k \<in> fst ` set obj then AList.update k v obj
      else if is_index k then insert_index k v obj
      else obj @ [(k, v)])"

text \<open>\<^verbatim>\<open>{...base, ...extra}\<close>: the properties of \<open>extra\<close> are set on a copy of \<open>base\<close>, in order.\<close>

definition spread :: "jobj \<Rightarrow> jobj \<Rightarrow> jobj" where
  "spread base extra = fold (\<lambda>(k, v). set_prop k v) extra base"

text \<open>White space and line terminators among the code units below 256.\<close>

definition is_space :: "char \<Rightarrow> bool" where
  "is_space c = (of_char c \<in> {9, 10, 11, 12, 13, 32, 160 :: nat})"

definition trim :: "string \<Rightarrow> string" where
  "trim s = rev (dropWhile is_space (rev (dropWhile is_space s)))"

text \<open>\<^verbatim>\<open>array.findIndex(p)\<close>; \<open>None\<close> stands for \<open>-1\<close>.\<close>

fun findIndex :: "('a \<Rightarrow> bool) \<Rightarrow> 'a list \<Rightarrow> nat option" where
  "findIndex p [] = None"
| "findIndex p (x # xs) =
     (if p x then Some 0 else (case findIndex p xs of None \<Rightarrow> None | Some i \<Rightarrow> Some (Suc i)))"

text \<open>\<^verbatim>\<open>array.splice(i, 1)\<close>.\<close>

definition splice1 :: "nat \<Rightarrow> 'a list \<Rightarrow> 'a list" where
  "splice1 i xs = take i xs @ drop (Suc i) xs"

subsection \<open>The module's environment\<close>

text \<open>
  A query of the routes to the \<^verbatim>\<open>service_requests\<close> table, and the \<^verbatim>\<open>{ data, error }\<close> the client
  answers. \<^verbatim>\<open>Insert\<close> and \<^verbatim>\<open>Update\<close> are sent with \<^verbatim>\<open>.select().single()\<close>; \<^verbatim>\<open>Update\<close> and
  \<^verbatim>\<open>Delete\<close> are filtered by \<^verbatim>\<open>.eq('request_id', id)\<close>.
\<close>

datatype query = Insert jobj | Update jobj string | Delete string

record db_error =
  code :: string
  message :: string

record answer =
  data :: json
  error :: "db_error option"

text \<open>
  \<open>sseEvents\<close>: whether \<^verbatim>\<open>require('./events')\<close> has succeeded. \<open>supabase\<close>: the client, when the
  module has one; it is the store outside, which answers every query somehow.
  \<open>development\<close>: whether \<^verbatim>\<open>NODE_ENV\<close> is \<^verbatim>\<open>development\<close>.
\<close>

record env =
  sseEvents :: bool
  supabase :: "(query \<Rightarrow> answer) option"
  development :: bool

record reply =
  status :: nat
  body :: json

text \<open>
  What one request leaves behind: the reply, \<^verbatim>\<open>mockRequests\<close>, the queries sent to Supabase
  and the calls \<^verbatim>\<open>sseEvents.broadcastToClients(type, payload)\<close>, both in order.
\<close>

record outcome =
  reply :: reply
  mockRequests :: "jobj list"
  sent :: "query list"
  broadcasts :: "(string \<times> json) list"

definition message_of :: "thrown \<Rightarrow> string" where
  "message_of err = (case err of TypeError text \<Rightarrow> text | PostgrestError c text \<Rightarrow> text)"

text \<open>The \<^verbatim>\<open>catch\<close> block of a route.\<close>

definition failed :: "env \<Rightarrow> string \<Rightarrow> thrown \<Rightarrow> reply" where
  "failed e what err =
     \<lparr>status = 500,
      body = JObj [(''success'', JBool False), (''message'', JStr what),
                   (''error'', JStr (if development e then message_of err
                                     else ''Internal server error''))]\<rparr>"

definition not_found :: reply where
  "not_found =
     \<lparr>status = 404,
      body = JObj [(''success'', JBool False), (''message'', JStr ''Request not found'')]\<rparr>"

subsection \<open>\<^verbatim>\<open>validateRequest\<close>\<close>

definition isValidEmail :: "string \<Rightarrow> bool" where
  "isValidEmail email =
     (let name = takeWhile (\<lambda>c. c \<noteq> CHR ''@'') email
      in case dropWhile (\<lambda>c. c \<noteq> CHR ''@'') email of
           [] \<Rightarrow> False
         | _ # domain \<Rightarrow>
             name \<noteq> [] \<and> list_all (\<lambda>c. \<not> is_space c) name
             \<and> list_all (\<lambda>c. \<not> is_space c \<and> c \<noteq> CHR ''@'') domain
             \<and> CHR ''.'' \<in> set (butlast (tl domain)))"

definition isValidServiceType :: "json \<Rightarrow> bool" where
  "isValidServiceType type =
     (type \<in> set (map JStr [''aerial_photography'', ''delivery'', ''agriculture_spraying'',
                             ''surveillance'', ''inspection'', ''mapping'', ''other'']))"

definition isValidTime :: "json \<Rightarrow> bool" where
  "isValidTime time = (time \<in> set (map JStr [''morning'', ''afternoon'', ''evening'']))"

text \<open>
  \<^verbatim>\<open>!v || v.trim().length < n\<close>: \<open>Inr True\<close> when the message is pushed. A truthy value that is
  not a string has no \<^verbatim>\<open>trim\<close>, and the call throws.
\<close>

definition too_short :: "string \<Rightarrow> json option \<Rightarrow> nat \<Rightarrow> thrown + bool" where
  "too_short name p n =
     (case p of
        None \<Rightarrow> Inr True
      | Some v \<Rightarrow>
          if \<not> truthy v then Inr True
          else (case v of
                  JStr s \<Rightarrow> Inr (length (trim s) < n)
                | _ \<Rightarrow> Inl (TypeError (name @ ''.trim is not a function''))))"

text \<open>\<^verbatim>\<open>!v || !valid(v)\<close>, for a test that cannot throw.\<close>

definition invalid :: "json option \<Rightarrow> (json \<Rightarrow> bool) \<Rightarrow> bool" where
  "invalid p valid = (case p of None \<Rightarrow> True | Some v \<Rightarrow> \<not> truthy v \<or> \<not> valid v)"

text \<open>\<^verbatim>\<open>!email || !isValidEmail(email)\<close>: the regular expression is run on \<^verbatim>\<open>String(email)\<close>.\<close>

definition not_email :: "json option \<Rightarrow> thrown + bool" where
  "not_email p =
     (case p of
        None \<Rightarrow> Inr True
      | Some v \<Rightarrow>
          if \<not> truthy v then Inr True
          else (case to_string v of Inl err \<Rightarrow> Inl err | Inr s \<Rightarrow> Inr (\<not> isValidEmail s)))"

text \<open>
  \<^verbatim>\<open>!preferredDate || !isValidDate(preferredDate)\<close>. \<open>isValidDate\<close> is the runtime's verdict that
  \<^verbatim>\<open>new Date(date)\<close> is a date after \<^verbatim>\<open>new Date()\<close>; the constructor converts an object to a
  primitive first, which can throw.
\<close>

definition not_date :: "(json \<Rightarrow> thrown + bool) \<Rightarrow> json option \<Rightarrow> thrown + bool" where
  "not_date isValidDate p =
     (case p of
        None \<Rightarrow> Inr True
      | Some v \<Rightarrow>
          if \<not> truthy v then Inr True
          else (case isValidDate v of Inl err \<Rightarrow> Inl err | Inr ok \<Rightarrow> Inr (\<not> ok)))"

text \<open>One check of the middleware: the message it pushes, if any.\<close>

definition pushes :: "string \<Rightarrow> thrown + bool \<Rightarrow> thrown + string list" where
  "pushes msg r = (case r of Inl err \<Rightarrow> Inl err | Inr bad \<Rightarrow> Inr (if bad then [msg] else []))"

datatype middleware = Next | Responded reply | Threw thrown

text \<open>The checks in the order of the source; the first that throws leaves the middleware.\<close>

definition validateRequest :: "(json \<Rightarrow> thrown + bool) \<Rightarrow> jobj \<Rightarrow> middleware" where
  "validateRequest isValidDate b =
     (case sequence
        [pushes ''Client name is required and must be at least 2 characters''
           (too_short ''clientName'' (map_of b ''clientName'') 2),
         pushes ''Valid email address is required'' (not_email (map_of b ''email'')),
         pushes ''Valid phone number is required'' (too_short ''phone'' (map_of b ''phone'') 10),
         pushes ''Valid service type is required''
           (Inr (invalid (map_of b ''serviceType'') isValidServiceType)),
         pushes ''Detailed location is required''
           (too_short ''location'' (map_of b ''location'') 10),
         pushes ''Valid preferred date is required''
           (not_date isValidDate (map_of b ''preferredDate'')),
         pushes ''Valid preferred time is required''
           (Inr (invalid (map_of b ''preferredTime'') isValidTime)),
         pushes ''Detailed description is required (minimum 20 characters)''
           (too_short ''description'' (map_of b ''description'') 20)] of
        Inl err \<Rightarrow> Threw err
      | Inr pushed \<Rightarrow>
          (let errors = concat pushed
           in if length errors > 0
              then Responded \<lparr>status = 400,
                     body = JObj [(''success'', JBool False),
                                  (''message'', JStr ''Validation failed''),
                                  (''errors'', JArr (map JStr errors))]\<rparr>
              else Next))"

subsection \<open>The guarded call \<^verbatim>\<open>sseEvents.broadcastToClients(type, payload)\<close>\<close>

text \<open>With a payload that is at hand.\<close>

definition announce :: "env \<Rightarrow> string \<Rightarrow> json \<Rightarrow> (string \<times> json) list" where
  "announce e eventType payload = (if sseEvents e then [(eventType, payload)] else [])"

text \<open>
  With a payload built by a template literal: it is built inside the guard, before the
  call, and when building it throws the call is not made.
\<close>

definition notify :: "env \<Rightarrow> string \<Rightarrow> thrown + json \<Rightarrow> thrown + (string \<times> json) list" where
  "notify e eventType payload =
     (if sseEvents e
      then (case payload of Inl err \<Rightarrow> Inl err | Inr p \<Rightarrow> Inr [(eventType, p)])
      else Inr [])"

subsection \<open>\<^verbatim>\<open>router.post('/')\<close>\<close>

definition created :: "json \<Rightarrow> reply" where
  "created row =
     \<lparr>status = 201,
      body = JObj [(''success'', JBool True),
                   (''message'', JStr ''Service request created successfully''),
                   (''data'', row)]\<rparr>"

text \<open>\<^verbatim>\<open>{ request: row, message: `New service request: ${row.request_id}` }\<close>.\<close>

definition created_payload :: "json \<Rightarrow> thrown + json" where
  "created_payload row =
     (case get_prop row ''request_id'' of
        Inl err \<Rightarrow> Inl err
      | Inr p \<Rightarrow>
          (case interpolate p of
             Inl err \<Rightarrow> Inl err
           | Inr text \<Rightarrow>
               Inr (JObj [(''request'', row),
                          (''message'', JStr (''New service request: '' @ text))])))"

text \<open>
  The handler behind \<^verbatim>\<open>validateRequest\<close>. \<open>rid\<close> is what \<^verbatim>\<open>generateRequestId()\<close> returns when it
  is called (\<^verbatim>\<open>DR-\<close>, the year, six random digits); \<open>stamp1\<close> and \<open>stamp2\<close> are the two readings
  of \<^verbatim>\<open>new Date().toISOString()\<close>. On the mock store the record is stored before the broadcast
  is prepared.
\<close>

definition requestData :: "jobj \<Rightarrow> string \<Rightarrow> string \<Rightarrow> string \<Rightarrow> jobj" where
  "requestData b rid stamp1 stamp2 =
     set_prop ''updated_at'' (JStr stamp2)
       (set_prop ''created_at'' (JStr stamp1)
         (set_prop ''status'' (JStr ''pending'')
           (set_prop ''request_id''
              (case map_of b ''request_id'' of
                 None \<Rightarrow> JStr rid
               | Some v \<Rightarrow> if truthy v then v else JStr rid)
              (spread [] b))))"

definition post_handler ::
  "env \<Rightarrow> jobj \<Rightarrow> string \<Rightarrow> string \<Rightarrow> string \<Rightarrow> jobj list \<Rightarrow> outcome" where
  "post_handler e b rid stamp1 stamp2 mock =
     (let row = requestData b rid stamp1 stamp2
      in case supabase e of
           Some client \<Rightarrow>
             (let a = client (Insert row)
              in case error a of
                   Some err \<Rightarrow>
                     \<lparr>reply = failed e ''Failed to create request''
                                (PostgrestError (code err) (message err)),
                      mockRequests = mock, sent = [Insert row], broadcasts = []\<rparr>
                 | None \<Rightarrow>
                     (case notify e ''request-created'' (created_payload (data a)) of
                        Inl err \<Rightarrow>
                          \<lparr>reply = failed e ''Failed to create request'' err,
                           mockRequests = mock, sent = [Insert row], broadcasts = []\<rparr>
                      | Inr calls \<Rightarrow>
                          \<lparr>reply = created (data a), mockRequests = mock,
                           sent = [Insert row], broadcasts = calls\<rparr>))
         | None \<Rightarrow>
             (case notify e ''request-created'' (created_payload (JObj row)) of
                Inl err \<Rightarrow>
                  \<lparr>reply = failed e ''Failed to create request'' err,
                   mockRequests = row # mock, sent = [], broadcasts = []\<rparr>
              | Inr calls \<Rightarrow>
                  \<lparr>reply = created (JObj row), mockRequests = row # mock, sent = [],
                   broadcasts = calls\<rparr>))"

text \<open>
  The route: the middleware first. An exception of the middleware goes to the error handler
  of the router, which answers 500; its \<^verbatim>\<open>error\<close> member is \<^verbatim>\<open>undefined\<close>, and left out of the
  JSON text, outside development.
\<close>

definition post_route ::
  "env \<Rightarrow> (json \<Rightarrow> thrown + bool) \<Rightarrow> jobj \<Rightarrow> string \<Rightarrow> string \<Rightarrow> string \<Rightarrow> jobj list
     \<Rightarrow> outcome" where
  "post_route e isValidDate b rid stamp1 stamp2 mock =
     (case validateRequest isValidDate b of
        Next \<Rightarrow> post_handler e b rid stamp1 stamp2 mock
      | Responded r \<Rightarrow> \<lparr>reply = r, mockRequests = mock, sent = [], broadcasts = []\<rparr>
      | Threw err \<Rightarrow>
          \<lparr>reply = \<lparr>status = 500,
                     body = JObj ([(''success'', JBool False),
                                   (''message'', JStr ''Internal server error in requests router'')]
                                  @ (if development e then [(''error'', JStr (message_of err))]
                                     else []))\<rparr>,
           mockRequests = mock, sent = [], broadcasts = []\<rparr>)"

subsection \<open>\<^verbatim>\<open>router.put('/:id')\<close>\<close>

definition updated :: "json \<Rightarrow> reply" where
  "updated row =
     \<lparr>status = 200,
      body = JObj [(''success'', JBool True), (''message'', JStr ''Request updated successfully''),
                   (''data'', row)]\<rparr>"

text \<open>
  \<^verbatim>\<open>{ request: row, message: `Request ${row.request_id} status updated to ${row.status}` }\<close>;
  the substitutions are read and converted from left to right.
\<close>

definition updated_payload :: "json \<Rightarrow> thrown + json" where
  "updated_payload row =
     (case get_prop row ''request_id'' of
        Inl err \<Rightarrow> Inl err
      | Inr p \<Rightarrow>
     (case interpolate p of
        Inl err \<Rightarrow> Inl err
      | Inr text1 \<Rightarrow>
     (case get_prop row ''status'' of
        Inl err \<Rightarrow> Inl err
      | Inr q \<Rightarrow>
     (case interpolate q of
        Inl err \<Rightarrow> Inl err
      | Inr text2 \<Rightarrow>
          Inr (JObj [(''request'', row),
                     (''message'', JStr (''Request '' @ text1 @ '' status updated to ''
                                         @ text2))])))))"

text \<open>The payload of the update: the body, \<^verbatim>\<open>updated_at\<close> set, the read-only fields deleted.\<close>

definition updateData :: "jobj \<Rightarrow> string \<Rightarrow> jobj" where
  "updateData b stamp =
     AList.delete ''created_at''
       (AList.delete ''request_id'' (set_prop ''updated_at'' (JStr stamp) (spread [] b)))"

text \<open>On the mock store the record is replaced before the broadcast is prepared.\<close>

definition put_route :: "env \<Rightarrow> string \<Rightarrow> jobj \<Rightarrow> string \<Rightarrow> jobj list \<Rightarrow> outcome" where
  "put_route e ident b stamp mock =
     (case supabase e of
        Some client \<Rightarrow>
          (let a = client (Update (updateData b stamp) ident)
           in case error a of
                Some err \<Rightarrow>
                  if code err = ''PGRST116''
                  then \<lparr>reply = not_found, mockRequests = mock,
                        sent = [Update (updateData b stamp) ident], broadcasts = []\<rparr>
                  else \<lparr>reply = failed e ''Failed to update request''
                                  (PostgrestError (code err) (message err)),
                        mockRequests = mock, sent = [Update (updateData b stamp) ident],
                        broadcasts = []\<rparr>
              | None \<Rightarrow>
                  (case notify e ''request-updated'' (updated_payload (data a)) of
                     Inl err \<Rightarrow>
                       \<lparr>reply = failed e ''Failed to update request'' err, mockRequests = mock,
                        sent = [Update (updateData b stamp) ident], broadcasts = []\<rparr>
                   | Inr calls \<Rightarrow>
                       \<lparr>reply = updated (data a), mockRequests = mock,
                        sent = [Update (updateData b stamp) ident], broadcasts = calls\<rparr>))
      | None \<Rightarrow>
          (case findIndex (\<lambda>req. map_of req ''request_id'' = Some (JStr ident)) mock of
             None \<Rightarrow> \<lparr>reply = not_found, mockRequests = mock, sent = [], broadcasts = []\<rparr>
           | Some requestIndex \<Rightarrow>
               (let row = spread (mock ! requestIndex) (updateData b stamp)
                in case notify e ''request-updated'' (updated_payload (JObj row)) of
                     Inl err \<Rightarrow>
                       \<lparr>reply = failed e ''Failed to update request'' err,
                        mockRequests = mock[requestIndex := row], sent = [], broadcasts = []\<rparr>
                   | Inr calls \<Rightarrow>
                       \<lparr>reply = updated (JObj row), mockRequests = mock[requestIndex := row],
                        sent = [], broadcasts = calls\<rparr>)))"

subsection \<open>\<^verbatim>\<open>router.delete('/:id')\<close>\<close>

definition deleted :: reply where
  "deleted =
     \<lparr>status = 200,
      body = JObj [(''success'', JBool True),
                   (''message'', JStr ''Request deleted successfully'')]\<rparr>"

definition deleted_payload :: "string \<Rightarrow> json" where
  "deleted_payload ident =
     JObj [(''request_id'', JStr ident),
           (''message'', JStr (''Request '' @ ident @ '' has been deleted''))]"

definition delete_route :: "env \<Rightarrow> string \<Rightarrow> jobj list \<Rightarrow> outcome" where
  "delete_route e ident mock =
     (case supabase e of
        Some client \<Rightarrow>
          (let a = client (Delete ident)
           in case error a of
                Some err \<Rightarrow>
                  \<lparr>reply = failed e ''Failed to delete request''
                             (PostgrestError (code err) (message err)),
                   mockRequests = mock, sent = [Delete ident], broadcasts = []\<rparr>
              | None \<Rightarrow>
                  \<lparr>reply = deleted, mockRequests = mock, sent = [Delete ident],
                   broadcasts = announce e ''request-deleted'' (deleted_payload ident)\<rparr>)
      | None \<Rightarrow>
          (case findIndex (\<lambda>req. map_of req ''request_id'' = Some (JStr ident)) mock of
             None \<Rightarrow> \<lparr>reply = not_found, mockRequests = mock, sent = [], broadcasts = []\<rparr>
           | Some requestIndex \<Rightarrow>
               \<lparr>reply = deleted, mockRequests = splice1 requestIndex mock, sent = [],
                broadcasts = announce e ''request-deleted'' (deleted_payload ident)\<rparr>))"

subsection \<open>Stores to run the routes on\<close>

text \<open>
  Supabase over a \<^verbatim>\<open>service_requests\<close> table that holds no row. A filtered delete that
  matches no row is not an error; an update that is to return a single row and matches
  none is answered with the error \<^verbatim>\<open>PGRST116\<close>; an insert returns the row (here as it was
  sent, without the columns the table fills in).
\<close>

definition empty_table :: "query \<Rightarrow> answer" where
  "empty_table q =
     (case q of
        Insert row \<Rightarrow> \<lparr>data = JObj row, error = None\<rparr>
      | Update payload ident \<Rightarrow>
          \<lparr>data = JNull,
           error = Some \<lparr>code = ''PGRST116'',
                         message = ''JSON object requested, multiple (or no) rows returned''\<rparr>\<rparr>
      | Delete ident \<Rightarrow> \<lparr>data = JNull, error = None\<rparr>)"

text \<open>The module with the events module loaded, on Supabase and on the mock store.\<close>

definition on_supabase :: "(query \<Rightarrow> answer) \<Rightarrow> env" where
  "on_supabase client = \<lparr>sseEvents = True, supabase = Some client, development = False\<rparr>"

definition on_mock :: env where
  "on_mock = \<lparr>sseEvents = True, supabase = None, development = False\<rparr>"

text \<open>The first record of the mock store of the source, its fields that matter here.\<close>

definition mock_record :: jobj where
  "mock_record =
     [(''request_id'', JStr ''DR-2024-001234''), (''clientName'', JStr ''John Smith''),
      (''status'', JStr ''in_progress''), (''created_at'', JStr ''2024-01-10T10:30:00.000Z''),
      (''updated_at'', JStr ''2024-01-12T14:20:00.000Z'')]"

text \<open>A body that passes every check of \<^verbatim>\<open>validateRequest\<close> when its date is accepted.\<close>

definition valid_body :: jobj where
  "valid_body =
     [(''clientName'', JStr ''John Smith''), (''email'', JStr ''john@example.com''),
      (''phone'', JStr ''+1-555-0123''), (''serviceType'', JStr ''delivery''),
      (''location'', JStr ''12 Hill Road, Springfield''),
      (''preferredDate'', JStr ''2030-01-01''), (''preferredTime'', JStr ''morning''),
      (''description'', JStr ''Deliver a parcel to the hill station'')]"

section \<open>Properties of JSON texts\<close>

subsection \<open>Strings\<close>

lemma hex_value_hex_digit: "k < 16 \<Longrightarrow> hex_value (hex_digit k) = Some k"
proof -
  have "\<forall>k \<in> {..<16::nat}. hex_value (hex_digit k) = Some k"
    by code_simp
  then show "k < 16 \<Longrightarrow> hex_value (hex_digit k) = Some k"
    by simp
qed

lemma hex4_control:
  assumes "n < 32"
  shows "hex4 (CHR ''0'') (CHR ''0'') (hex_digit (n div 16)) (hex_digit (n mod 16)) = Some n"
proof -
  have "n div 16 < 16" using assms by simp
  moreover have "n mod 16 < 16" by simp
  moreover have "hex_value (CHR ''0'') = Some 0" by (simp add: hex_value_def)
  ultimately show ?thesis
    by (simp add: hex4_def hex_value_hex_digit)
qed

lemma read_chars_quote_char:
  "read_chars (quote_char c @ text) =
     (case read_chars text of None \<Rightarrow> None | Some (s, rest) \<Rightarrow> Some (c # s, rest))"
proof (cases "c = CHR 0x22 \<or> c = CHR 0x5C \<or> c = CHR 0x08 \<or> c = CHR 0x0C \<or> c = CHR 0x0A
                \<or> c = CHR 0x0D \<or> c = CHR 0x09")
  case True
  then show ?thesis
    by (auto simp: quote_char_def unescape_def split: option.splits)
next
  case named: False
  show ?thesis
  proof (cases "of_char c < (32::nat)")
    case True
    have "char_of (of_char c :: nat) = c" by simp
    with True named hex4_control [OF True] show ?thesis
      by (simp add: quote_char_def split: option.splits)
  next
    case False
    with named show ?thesis
      by (simp add: quote_char_def split: option.splits)
  qed
qed

lemma read_chars_quoted:
  "read_chars (concat (map quote_char s) @ CHR 0x22 # rest) = Some (s, rest)"
  by (induction s) (simp_all add: read_chars_quote_char)

subsection \<open>Numbers\<close>

lemma join_Cons:
  "join sep (a # map f xs) = a @ concat (map (\<lambda>y. sep @ f y) xs)"
  by (induction xs arbitrary: a) simp_all

lemma json_number_first:
  assumes "json_number t"
  obtains c cs where "t = c # cs" and "is_digit c \<or> c = CHR ''-''"
proof (cases t)
  case Nil
  with assms show ?thesis by (simp add: json_number_def)
next
  case (Cons c cs)
  show ?thesis
  proof (cases "c = CHR ''-''")
    case True
    with Cons that show ?thesis by simp
  next
    case False
    with assms Cons have "takeWhile is_digit (c # cs) \<noteq> []"
      by (simp add: json_number_def json_int_frac_exp_def)
    then have "is_digit c"
      by (simp split: if_splits)
    with Cons that show ?thesis by simp
  qed
qed

lemma first_of_number:
  assumes "is_digit c \<or> c = CHR ''-''"
  shows "c \<noteq> CHR ''[''" "c \<noteq> CHR ''{''" "c \<noteq> CHR 0x22" "c \<noteq> CHR ''n''"
    "c \<noteq> CHR ''t''" "c \<noteq> CHR ''f''" "c \<noteq> CHR '']''" "c \<noteq> CHR ''}''"
  using assms by (auto simp: is_digit_def)

lemma takeWhile_number:
  assumes "list_all is_numchar t" and "ends_number rest"
  shows "takeWhile is_numchar (t @ rest) = t" and "dropWhile is_numchar (t @ rest) = rest"
proof -
  have r: "takeWhile is_numchar rest = []" "dropWhile is_numchar rest = rest"
    using assms(2) by (cases rest; simp add: ends_number_def)+
  from assms(1) have a: "\<forall>c \<in> set t. is_numchar c"
    by (simp add: list_all_iff)
  show "takeWhile is_numchar (t @ rest) = t"
    using a r by (simp add: takeWhile_append2)
  show "dropWhile is_numchar (t @ rest) = rest"
    using a r by (simp add: dropWhile_append2)
qed

lemma read_number:
  assumes "json_number t" and "ends_number rest"
  shows "read_value (Suc n) (t @ rest) = Some (JNum t, rest)"
proof -
  from assms(1) obtain c cs where t: "t = c # cs" and c: "is_digit c \<or> c = CHR ''-''"
    by (rule json_number_first)
  from assms(1) have "list_all is_numchar t"
    by (simp add: json_number_def)
  note tw = takeWhile_number [OF this assms(2)]
  have "read_value (Suc n) (c # cs @ rest) =
          (if json_number (takeWhile is_numchar (c # cs @ rest))
           then Some (JNum (takeWhile is_numchar (c # cs @ rest)),
                      dropWhile is_numchar (c # cs @ rest))
           else None)"
    using first_of_number [OF c] by simp
  with tw assms(1) show ?thesis
    by (simp add: t)
qed

subsection \<open>Arrays and objects\<close>

lemma ends_number_tail:
  "ends_number (concat (map (\<lambda>y. '','' @ f y) xs) @ CHR '']'' # rest)"
  "ends_number (concat (map (\<lambda>y. '','' @ f y) xs) @ CHR ''}'' # rest)"
  by (cases xs; simp add: ends_number_def is_numchar_def is_digit_def)+

lemma read_elements_tail:
  assumes "\<And>x n rest. x \<in> set xs \<Longrightarrow> ends_number rest \<Longrightarrow> length (stringify x) \<le> n \<Longrightarrow>
             read_value n (stringify x @ rest) = Some (as_json x, rest)"
    and "length (concat (map (\<lambda>y. '','' @ stringify y) xs)) < n"
  shows "read_elements n (concat (map (\<lambda>y. '','' @ stringify y) xs) @ CHR '']'' # rest)
           = Some (map as_json xs, rest)"
  using assms
proof (induction xs arbitrary: n)
  case Nil
  then obtain m where "n = Suc m" by (cases n) simp_all
  then show ?case by simp
next
  case (Cons y ys)
  from Cons.prems(2) obtain m where n: "n = Suc m" by (cases n) simp_all
  let ?R = "concat (map (\<lambda>y. '','' @ stringify y) ys) @ CHR '']'' # rest"
  from Cons.prems(2) n have len: "length (stringify y) \<le> m"
    and len': "length (concat (map (\<lambda>y. '','' @ stringify y) ys)) < m"
    by simp_all
  have e: "ends_number ?R" by (rule ends_number_tail)
  have v: "read_value m (stringify y @ ?R) = Some (as_json y, ?R)"
    using Cons.prems(1) [of y ?R m] e len by simp
  have "read_value n (stringify x @ rest) = Some (as_json x, rest)"
    if "x \<in> set ys" "ends_number rest" "length (stringify x) \<le> n" for x n rest
    using Cons.prems(1) [of x rest n] that by simp
  from Cons.IH [OF this len']
  have vs: "read_elements m ?R = Some (map as_json ys, rest)" .
  show ?case
    using v vs by (simp add: n)
qed

lemma read_member_text:
  assumes "\<And>n rest. ends_number rest \<Longrightarrow> length (stringify v) \<le> n \<Longrightarrow>
             read_value n (stringify v @ rest) = Some (as_json v, rest)"
    and "ends_number rest"
    and "length (quote k @ '':'' @ stringify v) \<le> n"
  shows "read_member n (quote k @ '':'' @ stringify v @ rest) = Some ((k, as_json v), rest)"
proof -
  from assms(3) obtain m where n: "n = Suc m" by (cases n) (simp_all add: quote_def)
  from assms(3) n have len: "length (stringify v) \<le> m"
    by (simp add: quote_def)
  have k: "read_chars (concat (map quote_char k) @ CHR 0x22 # '':'' @ stringify v @ rest)
             = Some (k, '':'' @ stringify v @ rest)"
    by (rule read_chars_quoted)
  have v: "read_value m (stringify v @ rest) = Some (as_json v, rest)"
    by (rule assms(1) [OF assms(2) len])
  show ?thesis
    using k v by (simp add: n quote_def)
qed

lemma read_members_tail:
  assumes "\<And>k v n rest. (k, v) \<in> set kvs \<Longrightarrow> ends_number rest \<Longrightarrow> length (stringify v) \<le> n \<Longrightarrow>
             read_value n (stringify v @ rest) = Some (as_json v, rest)"
    and "length (concat (map (\<lambda>kv. '','' @ (case kv of (k, v) \<Rightarrow> quote k @ '':'' @ stringify v)) kvs)) < n"
  shows "read_members n (concat (map (\<lambda>kv. '','' @ (case kv of (k, v) \<Rightarrow> quote k @ '':'' @ stringify v)) kvs)
                          @ CHR ''}'' # rest)
           = Some (map (\<lambda>(k, v). (k, as_json v)) kvs, rest)"
  using assms
proof (induction kvs arbitrary: n)
  case Nil
  then obtain m where "n = Suc m" by (cases n) simp_all
  then show ?case by simp
next
  case (Cons kv kvs)
  obtain k v where kv: "kv = (k, v)" by (cases kv)
  from Cons.prems(2) obtain m where n: "n = Suc m" by (cases n) simp_all
  let ?f = "\<lambda>kv. '','' @ (case kv of (k, v) \<Rightarrow> quote k @ '':'' @ stringify v)"
  let ?R = "concat (map ?f kvs) @ CHR ''}'' # rest"
  from Cons.prems(2) n kv have len: "length (quote k @ '':'' @ stringify v) \<le> m"
    and len': "length (concat (map ?f kvs)) < m"
    by simp_all
  have m1: "read_member m (quote k @ '':'' @ stringify v @ ?R) = Some ((k, as_json v), ?R)"
  proof (rule read_member_text [OF _ _ len])
    show "ends_number ?R" by (rule ends_number_tail)
    show "read_value n (stringify v @ rest) = Some (as_json v, rest)"
      if "ends_number rest" "length (stringify v) \<le> n" for n rest
      using that by (intro Cons.prems(1) [of k v]) (simp_all add: kv)
  qed
  have "read_value n (stringify v' @ rest) = Some (as_json v', rest)"
    if "(k', v') \<in> set kvs" "ends_number rest" "length (stringify v') \<le> n" for k' v' n rest
    using Cons.prems(1) [of k' v' rest n] that by simp
  from Cons.IH [OF this len']
  have ms: "read_members m ?R = Some (map (\<lambda>(k, v). (k, as_json v)) kvs, rest)" .
  show ?case
    using m1 ms by (simp add: n kv)
qed

lemma first_of_stringify:
  assumes "printable v"
  obtains c cs where "stringify v = c # cs" and "c \<noteq> CHR '']''" and "c \<noteq> CHR ''}''"
proof (cases v)
  case (JNum t)
  show ?thesis
  proof (cases "non_finite t")
    case True
    with JNum that show ?thesis by simp
  next
    case False
    with JNum assms have "json_number t" by simp
    then obtain c cs where "t = c # cs" and "is_digit c \<or> c = CHR ''-''"
      by (rule json_number_first)
    with JNum False that first_of_number(7,8) [of c] show ?thesis by simp
  qed
next
  case (JBool b)
  with that show ?thesis by (cases b) simp_all
qed (use that in \<open>simp_all add: quote_def\<close>)

lemma read_value_stringify:
  assumes "printable v" and "ends_number rest" and "length (stringify v) \<le> n"
  shows "read_value n (stringify v @ rest) = Some (as_json v, rest)"
  using assms
proof (induction v arbitrary: n rest)
  case JNull
  then obtain m where "n = Suc m" by (cases n) simp_all
  then show ?case by simp
next
  case (JBool b)
  then obtain m where "n = Suc m" by (cases n; cases b) simp_all
  then show ?case by (cases b) simp_all
next
  case (JNum t)
  then obtain m where n: "n = Suc m"
    by (cases n) (auto simp: json_number_def split: if_splits)
  show ?case
  proof (cases "non_finite t")
    case True
    then show ?thesis by (simp add: n)
  next
    case False
    with JNum.prems(1) have "json_number t" by simp
    from read_number [OF this JNum.prems(2)] False show ?thesis
      by (simp add: n)
  qed
next
  case (JStr s)
  then obtain m where "n = Suc m" by (cases n) (simp_all add: quote_def)
  then show ?case by (simp add: quote_def read_chars_quoted)
next
  case (JArr xs)
  from JArr.prems(3) obtain m where n: "n = Suc m" by (cases n) simp_all
  show ?case
  proof (cases xs)
    case Nil
    then show ?thesis by (simp add: n)
  next
    case (Cons x ys)
    let ?T = "concat (map (\<lambda>y. '','' @ stringify y) ys)"
    let ?R = "?T @ CHR '']'' # rest"
    have shape: "stringify (JArr xs) @ rest = CHR ''['' # stringify x @ ?R"
      by (simp add: Cons join_Cons del: join.simps)
    from JArr.prems(1) Cons have px: "printable x" and pys: "\<forall>y \<in> set ys. printable y"
      by (simp_all add: list_all_iff)
    from px obtain c cs where first: "stringify x = c # cs" "c \<noteq> CHR '']''"
      by (rule first_of_stringify)
    from JArr.prems(3) n have len: "length (stringify x) + length ?T < m"
      by (simp add: Cons join_Cons del: join.simps)
    have e: "ends_number ?R" by (rule ends_number_tail)
    have v: "read_value m (stringify x @ ?R) = Some (as_json x, ?R)"
      using JArr.IH [of x ?R m] px e len by (simp add: Cons)
    have "read_value n (stringify y @ rest) = Some (as_json y, rest)"
      if "y \<in> set ys" "ends_number rest" "length (stringify y) \<le> n" for y n rest
      using JArr.IH [of y rest n] that pys by (simp add: Cons)
    from read_elements_tail [OF this, of ys m rest] len
    have vs: "read_elements m ?R = Some (map as_json ys, rest)" by simp
    have "read_value (Suc m) (CHR ''['' # stringify x @ ?R)
            = Some (JArr (as_json x # map as_json ys), rest)"
      using first v vs by simp
    then show ?thesis
      by (simp only: shape n) (simp add: Cons)
  qed
next
  case (JObj kvs)
  from JObj.prems(3) obtain m where n: "n = Suc m" by (cases n) simp_all
  show ?case
  proof (cases kvs)
    case Nil
    then show ?thesis by (simp add: n)
  next
    case (Cons kv kvs')
    obtain k v where kv: "kv = (k, v)" by (cases kv)
    let ?f = "\<lambda>kv. case kv of (k, v) \<Rightarrow> quote k @ '':'' @ stringify v"
    let ?T = "concat (map (\<lambda>kv. '','' @ ?f kv) kvs')"
    let ?R = "?T @ CHR ''}'' # rest"
    have shape: "stringify (JObj kvs) @ rest = CHR ''{'' # quote k @ '':'' @ stringify v @ ?R"
      by (simp add: Cons kv join_Cons del: join.simps)
    from JObj.prems(1) Cons kv have pv: "printable v"
      and pkvs: "\<forall>(k', v') \<in> set kvs'. printable v'"
      by (simp_all add: list_all_iff)
    from JObj.prems(3) n have len: "length (quote k @ '':'' @ stringify v) + length ?T < m"
      by (simp add: Cons kv join_Cons del: join.simps)
    have e: "ends_number ?R" by (rule ends_number_tail)
    have "read_value n (stringify v @ rest) = Some (as_json v, rest)"
      if "ends_number rest" "length (stringify v) \<le> n" for n rest
      using JObj.IH [of kv v rest n] that pv by (simp add: Cons kv)
    from read_member_text [OF this e, of k m] len
    have m1: "read_member m (quote k @ '':'' @ stringify v @ ?R) = Some ((k, as_json v), ?R)"
      by simp
    have "read_value n (stringify v' @ rest) = Some (as_json v', rest)"
      if "(k', v') \<in> set kvs'" "ends_number rest" "length (stringify v') \<le> n"
      for k' v' n rest
      using JObj.IH [of "(k', v')" v' rest n] that pkvs by (auto simp: Cons)
    from read_members_tail [where kvs = kvs' and n = m and rest = rest, OF this] len
    have ms: "read_members m ?R = Some (map (\<lambda>(k, v). (k, as_json v)) kvs', rest)" by simp
    have "read_value (Suc m) (CHR ''{'' # quote k @ '':'' @ stringify v @ ?R)
            = Some (JObj ((k, as_json v) # map (\<lambda>(k, v). (k, as_json v)) kvs'), rest)"
      using m1 ms by (simp add: quote_def)
    then show ?thesis
      by (simp only: shape n) (simp add: Cons kv)
  qed
qed

text \<open>
  Printing and reading back: the text \<^verbatim>\<open>JSON.stringify\<close> prints for a value is a JSON text, and
  it stands for that value, its numbers that are not finite replaced by \<^verbatim>\<open>null\<close>.
\<close>

lemma json_parse_stringify:
  "printable v \<Longrightarrow> json_parse (stringify v) = Some (as_json v)"
  using read_value_stringify [of v "[]" "length (stringify v)"]
  by (simp add: json_parse_def ends_number_def)

lemma as_json_all_finite: "all_finite v \<Longrightarrow> as_json v = v"
proof (induction v)
  case (JArr xs)
  then have "map as_json xs = xs"
    by (intro map_idI) (simp add: list_all_iff)
  then show ?case by simp
next
  case (JObj kvs)
  have "map (\<lambda>(k, v). (k, as_json v)) kvs = kvs"
  proof (intro map_idI)
    fix kv assume kv: "kv \<in> set kvs"
    obtain k v where [simp]: "kv = (k, v)" by (cases kv)
    from JObj.prems kv have "all_finite v" by (auto simp: list_all_iff)
    with JObj.IH [of kv v] kv show "(case kv of (k, v) \<Rightarrow> (k, as_json v)) = kv" by simp
  qed
  then show ?case by simp
qed simp_all

section \<open>Properties of routes/events.js\<close>

subsection \<open>Traces\<close>

lemma end_calls_append: "end_calls (xs @ ys) = end_calls xs + end_calls ys"
  by (induction xs rule: end_calls.induct) simp_all

lemma end_calls_res_write: "end_calls (trace (snd (res_write res chunk))) = end_calls (trace res)"
  by (simp add: res_write_def end_calls_append split: list.splits)

lemma end_calls_write_event: "end_calls (trace (snd (write_event t m res))) = end_calls (trace res)"
  by (simp add: write_event_def end_calls_res_write split: prod.splits option.splits)
    (metis end_calls_res_write snd_conv)

subsection \<open>Removal by the close and error handlers\<close>

text \<open>
  C9. Removal is idempotent and total. \<^verbatim>\<open>sseClients.delete\<close>, the removal of every path, done
  twice gives the set that doing it once gives, and on a client that is not in the set it
  gives the set back. The \<^verbatim>\<open>close\<close> and \<^verbatim>\<open>error\<close> handlers never throw; running one twice leaves
  the module in the state that running it once does; and for a client that is not in the
  registry the handler leaves the registry and every client object as they are.
\<close>

theorem remove_idempotent:
  "set_delete r (set_delete r rs) = set_delete r rs
   \<and> (r \<notin> set rs \<longrightarrow> set_delete r rs = rs)
   \<and> fst (on_close r s) = None \<and> fst (on_error r s) = None
   \<and> snd (on_close r (snd (on_close r s))) = snd (on_close r s)
   \<and> snd (on_error r (snd (on_error r s))) = snd (on_error r s)
   \<and> (r \<notin> set (sseClients s) \<longrightarrow>
        sseClients (snd (on_close r s)) = sseClients s
        \<and> sseClients (snd (on_error r s)) = sseClients s
        \<and> heap (snd (on_close r s)) = heap s \<and> heap (snd (on_error r s)) = heap s)"
  by (simp add: on_close_def on_error_def set_delete_def clearInterval_def)

theorem remove_idempotent_witness:
  "7 \<notin> set (sseClients one_client) \<and> sseClients (snd (on_close 7 one_client)) = [0]
   \<and> sseClients (snd (on_close 0 (snd (on_close 0 one_client)))) = []
   \<and> sseClients (snd (on_close 0 one_client)) = []"
  using remove_idempotent [of 7 "sseClients one_client" one_client]
    remove_idempotent [of 0 "sseClients one_client" one_client]
  by (simp add: one_client_def get_events_def init_def fresh_response_def res_write_def
      set_response_def set_add_def on_close_def set_delete_def)

subsection \<open>Client ids\<close>

text \<open>
  C3. The ids of the registered clients are meant to be pairwise distinct. The id is the
  reading of \<^verbatim>\<open>Date.now()\<close>: two subscribers admitted within one millisecond are both
  registered, as two objects, under the same id, and \<^verbatim>\<open>sendToClient\<close> with that id reaches
  the first of them only.
\<close>

theorem same_millisecond_same_id:
  "sseClients two_clients = [0, 1]
   \<and> client_id (heap two_clients 0) = 1700000000000
   \<and> client_id (heap two_clients 1) = 1700000000000
   \<and> response (heap (snd (sendToClient 1700000000000 ''note'' JNull ''t'' two_clients)) 1)
       = response (heap two_clients 1)
   \<and> response (heap (snd (sendToClient 1700000000000 ''note'' JNull ''t'' two_clients)) 0)
       \<noteq> response (heap two_clients 0)"
  by (simp add: two_clients_def one_client_def get_events_def init_def fresh_response_def
      res_write_def set_response_def set_add_def sendToClient_def write_event_def)

subsection \<open>The heartbeat\<close>





subsection \<open>The reaper\<close>

lemma forEach_cleanup:
  "distinct rs \<Longrightarrow>
   forEach (cleanup_client now) rs s =
     (None, s\<lparr>heap := (\<lambda>r. if r \<in> set rs \<and> now - lastPing (heap s r) > staleTimeout
                                 \<and> \<not> destroyed (response (heap s r))
                            then (heap s r)\<lparr>response := snd (res_end (response (heap s r)))\<rparr>
                            else heap s r),
              sseClients := filter (\<lambda>r. \<not> (r \<in> set rs \<and> now - lastPing (heap s r) > staleTimeout))
                            (sseClients s)\<rparr>)"
proof (induction rs arbitrary: s)
  case Nil
  then show ?case by simp
next
  case (Cons r rs)
  then show ?case
    apply (simp add: cleanup_client_def set_response_def set_delete_def Let_def
        split: prod.splits option.splits)
    apply (auto simp: fun_eq_iff set_response_def removeAll_filter_not_eq
        intro!: filter_cong state.equality)
    done
qed

text \<open>
  C4 (as the code has it). One pass of \<^verbatim>\<open>cleanupConnections\<close> at clock reading \<open>now\<close> lets no
  exception out and leaves in the registry exactly the clients with
  \<open>now - lastPing \<le> 300000\<close>, in their order. A client whose age exceeds 300000 ms is removed;
  when its sink is not destroyed, \<^verbatim>\<open>end()\<close> is called on it, once, and nothing else happens to
  the client; when its sink is destroyed, the client object is left as it is, with no call
  on the sink. A client whose age does not exceed the threshold stays registered and its
  object is as before.
\<close>

theorem reaper_pass:
  assumes "distinct (sseClients s)"
  shows "fst (cleanupConnections now s) = None
    \<and> sseClients (snd (cleanupConnections now s))
        = filter (\<lambda>r. \<not> now - lastPing (heap s r) > 300000) (sseClients s)
    \<and> (\<forall>r \<in> set (sseClients s).
          (now - lastPing (heap s r) > 300000 \<longrightarrow>
             r \<notin> set (sseClients (snd (cleanupConnections now s)))
             \<and> (\<not> destroyed (response (heap s r)) \<longrightarrow>
                  heap (snd (cleanupConnections now s)) r
                    = (heap s r)\<lparr>response := (response (heap s r))
                         \<lparr>trace := trace (response (heap s r))
                             @ [if end_throws (response (heap s r)) then EndThrew else Ended]\<rparr>\<rparr>)
             \<and> (destroyed (response (heap s r)) \<longrightarrow>
                  heap (snd (cleanupConnections now s)) r = heap s r))
          \<and> (\<not> now - lastPing (heap s r) > 300000 \<longrightarrow>
               r \<in> set (sseClients (snd (cleanupConnections now s)))
               \<and> heap (snd (cleanupConnections now s)) r = heap s r))"
  using assms
  by (simp add: cleanupConnections_def forEach_cleanup staleTimeout_def res_end_def
      cong: filter_cong)

theorem reaper_pass_witness:
  "distinct (sseClients one_client)
   \<and> sseClients one_client = [0]
   \<and> lastPing (heap one_client 0) = 1700000000000
   \<and> sseClients (snd (cleanupConnections 1700000301000 one_client)) = []
   \<and> trace (response (heap (snd (cleanupConnections 1700000301000 one_client)) 0))
       = trace (response (heap one_client 0)) @ [Ended]
   \<and> sseClients (snd (cleanupConnections 1700000300000 one_client)) = [0]
   \<and> heap (snd (cleanupConnections 1700000300000 one_client)) 0 = heap one_client 0
   \<and> distinct (sseClients destroyed_client)
   \<and> sseClients destroyed_client = [0]
   \<and> destroyed (response (heap destroyed_client 0))
   \<and> sseClients (snd (cleanupConnections 1700000301000 destroyed_client)) = []
   \<and> heap (snd (cleanupConnections 1700000301000 destroyed_client)) 0 = heap destroyed_client 0"
proof -
  have d: "distinct (sseClients one_client)"
    by (simp add: one_client_def get_events_def init_def fresh_response_def res_write_def
        set_response_def set_add_def)
  have d': "distinct (sseClients destroyed_client)"
    by (simp add: destroyed_client_def one_client_def get_events_def init_def
        fresh_response_def res_write_def set_response_def set_add_def)
  show ?thesis
    using d d' reaper_pass [OF d, of 1700000301000] reaper_pass [OF d, of 1700000300000]
      reaper_pass [OF d', of 1700000301000]
    by (simp add: destroyed_client_def one_client_def get_events_def init_def
        fresh_response_def res_write_def set_response_def set_add_def)
qed

text \<open>
  C4 as stated does not hold: a stale client whose sink is destroyed is removed by the
  pass, and the pass makes no \<^verbatim>\<open>end()\<close> call on its sink.
\<close>

theorem reaper_skips_destroyed_sink:
  "sseClients destroyed_client = [0]
   \<and> lastPing (heap destroyed_client 0) = 1700000000000
   \<and> destroyed (response (heap destroyed_client 0))
   \<and> sseClients (snd (cleanupConnections 1700000301000 destroyed_client)) = []
   \<and> trace (response (heap (snd (cleanupConnections 1700000301000 destroyed_client)) 0))
       = trace (response (heap destroyed_client 0))
   \<and> end_calls (trace (response (heap (snd (cleanupConnections 1700000301000
         destroyed_client)) 0))) = 0"
  by (simp add: destroyed_client_def one_client_def get_events_def init_def fresh_response_def
      res_write_def set_response_def set_add_def cleanupConnections_def cleanup_client_def
      staleTimeout_def set_delete_def)

subsection \<open>Broadcast\<close>

lemma forEach_broadcast:
  "distinct rs \<Longrightarrow>
   forEach (broadcast_client t m) rs s =
     (None, s\<lparr>heap := (\<lambda>r. if r \<in> set rs \<and> \<not> destroyed (response (heap s r))
                            then (heap s r)\<lparr>response := snd (write_event t m (response (heap s r)))\<rparr>
                            else heap s r),
              sseClients := filter (\<lambda>r. \<not> (r \<in> set rs \<and>
                              (destroyed (response (heap s r)) \<or>
                               fst (write_event t m (response (heap s r))) \<noteq> None)))
                            (sseClients s)\<rparr>)"
proof (induction rs arbitrary: s)
  case Nil
  then show ?case by simp
next
  case (Cons r rs)
  then show ?case
    apply (simp add: broadcast_client_def set_response_def set_delete_def
        split: prod.splits option.splits)
    apply (auto simp: fun_eq_iff removeAll_filter_not_eq intro!: filter_cong state.equality)
    done
qed

lemma write_event_accepted:
  "fst (write_event t m res) = None \<Longrightarrow>
   trace (snd (write_event t m res))
     = trace res @ [Wrote (''event: '' @ t @ ''\<newline>''), Wrote (''data: '' @ m @ ''\<newline>\<newline>'')]"
  by (auto simp: write_event_def res_write_def split: list.splits if_splits)

lemma write_event_thrown:
  "fst (write_event t m res) \<noteq> None \<Longrightarrow>
   trace (snd (write_event t m res)) = trace res @ [WriteThrew (''event: '' @ t @ ''\<newline>'')]
   \<or> trace (snd (write_event t m res))
       = trace res @ [Wrote (''event: '' @ t @ ''\<newline>''), WriteThrew (''data: '' @ m @ ''\<newline>\<newline>'')]"
  by (auto simp: write_event_def res_write_def split: list.splits if_splits)

lemma event_message_text:
  \<open>event_message t d stamp =
     ''{"type":'' @ quote t @ '',"data":'' @ stringify d @ '',"timestamp":'' @ quote stamp @ ''}''\<close>
  by (simp add: event_message_def quote_def quote_char_def)

text \<open>
  C1 (as the code has it). A broadcast lets no exception out. It keeps in the registry, in
  their order, exactly the clients whose sink is not destroyed and accepts both writes.
  For every client registered at call time: when its sink is destroyed, it is removed and
  nothing is written to it; otherwise the event line is written to it and, when accepted,
  the data line; when both are accepted it stays registered with exactly these two chunks
  appended; when one of them throws it is removed, and this changes nothing for any other
  client. On the empty registry the call returns with the state as it was.
\<close>

theorem broadcast_isolates_failures:
  assumes "distinct (sseClients s)"
  shows "fst (broadcastToClients t d stamp s) = None
    \<and> sseClients (snd (broadcastToClients t d stamp s))
        = filter (\<lambda>r. \<not> destroyed (response (heap s r))
                       \<and> fst (write_event t (event_message t d stamp) (response (heap s r))) = None)
            (sseClients s)
    \<and> (\<forall>r \<in> set (sseClients s).
          (destroyed (response (heap s r)) \<longrightarrow>
             r \<notin> set (sseClients (snd (broadcastToClients t d stamp s)))
             \<and> heap (snd (broadcastToClients t d stamp s)) r = heap s r)
          \<and> (\<not> destroyed (response (heap s r)) \<longrightarrow>
               heap (snd (broadcastToClients t d stamp s)) r
                 = (heap s r)\<lparr>response :=
                      snd (write_event t (event_message t d stamp) (response (heap s r)))\<rparr>
               \<and> (fst (write_event t (event_message t d stamp) (response (heap s r))) = None \<longrightarrow>
                    r \<in> set (sseClients (snd (broadcastToClients t d stamp s)))
                    \<and> trace (response (heap (snd (broadcastToClients t d stamp s)) r))
                        = trace (response (heap s r))
                          @ [Wrote (''event: '' @ t @ ''\<newline>''),
                             Wrote (''data: '' @ event_message t d stamp @ ''\<newline>\<newline>'')])
               \<and> (fst (write_event t (event_message t d stamp) (response (heap s r))) \<noteq> None \<longrightarrow>
                    r \<notin> set (sseClients (snd (broadcastToClients t d stamp s)))
                    \<and> (trace (response (heap (snd (broadcastToClients t d stamp s)) r))
                          = trace (response (heap s r))
                            @ [WriteThrew (''event: '' @ t @ ''\<newline>'')]
                        \<or> trace (response (heap (snd (broadcastToClients t d stamp s)) r))
                          = trace (response (heap s r))
                            @ [Wrote (''event: '' @ t @ ''\<newline>''),
                               WriteThrew (''data: '' @ event_message t d stamp @ ''\<newline>\<newline>'')]))))
    \<and> (sseClients s = [] \<longrightarrow> snd (broadcastToClients t d stamp s) = s)"
  using assms write_event_accepted write_event_thrown
  by (auto simp add: broadcastToClients_def forEach_broadcast cong: filter_cong)

theorem broadcast_isolates_failures_witness:
  \<open>distinct (sseClients two_sinks)
   \<and> sseClients two_sinks = [0, 1]
   \<and> fst (broadcastToClients ''request-updated'' (JObj [(''request_id'', JStr ''DR-2024-000001'')])
            ''2023-11-14T22:14:00.000Z'' two_sinks) = None
   \<and> sseClients (snd (broadcastToClients ''request-updated''
            (JObj [(''request_id'', JStr ''DR-2024-000001'')]) ''2023-11-14T22:14:00.000Z'' two_sinks))
       = [1]
   \<and> written (trace (response (heap (snd (broadcastToClients ''request-updated''
            (JObj [(''request_id'', JStr ''DR-2024-000001'')]) ''2023-11-14T22:14:00.000Z'' two_sinks)) 1)))
       = [connected_frame ''2023-11-14T22:13:20.007Z'',
          ''event: request-updated\<newline>'',
          ''data: {"type":"request-updated","data":{"request_id":"DR-2024-000001"},"timestamp":"2023-11-14T22:14:00.000Z"}\<newline>\<newline>'']
   \<and> snd (broadcastToClients ''request-deleted'' (JObj [(''request_id'', JStr ''X'')])
            ''2023-11-14T22:14:00.000Z'' init) = init\<close>
proof -
  have d: "distinct (sseClients two_sinks)"
    by (simp add: two_sinks_def broken_client_def broken_response_def get_events_def init_def
        fresh_response_def res_write_def set_response_def set_add_def)
  have e: "distinct (sseClients init)"
    by (simp add: init_def)
  show ?thesis
    using d broadcast_isolates_failures [OF d, of "''request-updated''"
        "JObj [(''request_id'', JStr ''DR-2024-000001'')]" "''2023-11-14T22:14:00.000Z''"]
      broadcast_isolates_failures [OF e, of "''request-deleted''"
        "JObj [(''request_id'', JStr ''X'')]" "''2023-11-14T22:14:00.000Z''"]
    by (simp add: two_sinks_def broken_client_def broken_response_def get_events_def init_def
        fresh_response_def res_write_def set_response_def set_add_def write_event_def
        event_message_def quote_def quote_char_def)
qed

text \<open>
  C1 as stated does not hold: a registered client whose sink is destroyed is removed
  by the broadcast with no write attempted on it.
\<close>

theorem destroyed_sink_gets_no_write:
  "sseClients destroyed_client = [0]
   \<and> trace (response (heap (snd (broadcastToClients ''request-updated''
         (JObj [(''request_id'', JStr ''DR-2024-000001'')]) ''2023-11-14T22:14:00.000Z''
         destroyed_client)) 0))
       = trace (response (heap destroyed_client 0))
   \<and> sseClients (snd (broadcastToClients ''request-updated''
         (JObj [(''request_id'', JStr ''DR-2024-000001'')]) ''2023-11-14T22:14:00.000Z''
         destroyed_client)) = []"
  by (simp add: destroyed_client_def one_client_def get_events_def init_def
      fresh_response_def res_write_def set_response_def set_add_def broadcastToClients_def
      broadcast_client_def set_delete_def)

lemma event_message_parse:
  assumes "printable d"
  shows "json_parse (event_message t d stamp)
           = Some (JObj [(''type'', JStr t), (''data'', as_json d), (''timestamp'', JStr stamp)])"
  using json_parse_stringify
    [of "JObj [(''type'', JStr t), (''data'', d), (''timestamp'', JStr stamp)]"] assms
  by (simp add: event_message_def)

text \<open>
  C6 (as the code has it). To every registered client whose sink is not destroyed and
  accepts both writes, a broadcast appends exactly two chunks: the line \<^verbatim>\<open>event: <type>\<close> and
  the line \<^verbatim>\<open>data: <json>\<close> followed by an empty line. The JSON text is the object with the
  members \<open>type\<close>, \<open>data\<close> and \<open>timestamp\<close>, in this order. Read as JSON, its \<open>type\<close> is the event
  type, its \<open>timestamp\<close> the reading of the clock taken by this call, and its \<open>data\<close> the
  payload with every number that is not finite replaced by \<^verbatim>\<open>null\<close>: the payload itself when
  all its numbers are finite.
\<close>

theorem broadcast_frame:
  assumes "distinct (sseClients s)" and "r \<in> set (sseClients s)"
    and "\<not> destroyed (response (heap s r))"
    and "fst (write_event t (event_message t d stamp) (response (heap s r))) = None"
  shows \<open>trace (response (heap (snd (broadcastToClients t d stamp s)) r))
     = trace (response (heap s r))
       @ [Wrote (''event: '' @ t @ ''\<newline>''),
          Wrote (''data: '' @ event_message t d stamp @ ''\<newline>\<newline>'')]
   \<and> event_message t d stamp
       = ''{"type":'' @ quote t @ '',"data":'' @ stringify d @ '',"timestamp":'' @ quote stamp
         @ ''}''
   \<and> (printable d \<longrightarrow>
        json_parse (event_message t d stamp)
          = Some (JObj [(''type'', JStr t), (''data'', as_json d), (''timestamp'', JStr stamp)]))
   \<and> (all_finite d \<longrightarrow> as_json d = d)\<close>
proof (intro conjI impI)
  show \<open>trace (response (heap (snd (broadcastToClients t d stamp s)) r))
     = trace (response (heap s r))
       @ [Wrote (''event: '' @ t @ ''\<newline>''),
          Wrote (''data: '' @ event_message t d stamp @ ''\<newline>\<newline>'')]\<close>
    using assms write_event_accepted [of t "event_message t d stamp" "response (heap s r)"]
    by (simp add: broadcastToClients_def forEach_broadcast)
  show \<open>event_message t d stamp
       = ''{"type":'' @ quote t @ '',"data":'' @ stringify d @ '',"timestamp":'' @ quote stamp
         @ ''}''\<close>
    by (rule event_message_text)
  show "json_parse (event_message t d stamp)
          = Some (JObj [(''type'', JStr t), (''data'', as_json d), (''timestamp'', JStr stamp)])"
    if "printable d"
    using that by (rule event_message_parse)
  show "as_json d = d" if "all_finite d"
    using that by (rule as_json_all_finite)
qed

theorem broadcast_frame_witness:
  \<open>distinct (sseClients one_client) \<and> 0 \<in> set (sseClients one_client)
   \<and> \<not> destroyed (response (heap one_client 0))
   \<and> fst (write_event ''request-created''
        (event_message ''request-created'' sample_payload ''2023-11-14T22:14:00.000Z'')
        (response (heap one_client 0))) = None
   \<and> printable sample_payload \<and> all_finite sample_payload
   \<and> trace (response (heap (snd (broadcastToClients ''request-created'' sample_payload
        ''2023-11-14T22:14:00.000Z'' one_client)) 0))
     = [WroteHead 200, Wrote (connected_frame ''2023-11-14T22:13:20.000Z''),
        Wrote ''event: request-created\<newline>'',
        Wrote (''data: {"type":"request-created","data":{"request_id":"DR-2024-000001","note":"5''
               @ [CHR 0x5C] @ ''" x 7'' @ [CHR 0x5C, CHR 0x5C, CHR 0x5C] @ ''n'' @ [CHR 0x5C]
               @ ''u001f","count":3,"ratio":1.5e+21,"tags":[true,null]},''
               @ ''"timestamp":"2023-11-14T22:14:00.000Z"}\<newline>\<newline>'')]
   \<and> json_parse (''{"type":"request-created","data":{"request_id":"DR-2024-000001","note":"5''
               @ [CHR 0x5C] @ ''" x 7'' @ [CHR 0x5C, CHR 0x5C, CHR 0x5C] @ ''n'' @ [CHR 0x5C]
               @ ''u001f","count":3,"ratio":1.5e+21,"tags":[true,null]},''
               @ ''"timestamp":"2023-11-14T22:14:00.000Z"}'')
     = Some (JObj [(''type'', JStr ''request-created''), (''data'', sample_payload),
                   (''timestamp'', JStr ''2023-11-14T22:14:00.000Z'')])\<close>
proof -
  have a: "distinct (sseClients one_client)" "0 \<in> set (sseClients one_client)"
    "\<not> destroyed (response (heap one_client 0))"
    "fst (write_event ''request-created''
        (event_message ''request-created'' sample_payload ''2023-11-14T22:14:00.000Z'')
        (response (heap one_client 0))) = None"
    by (simp_all add: one_client_def get_events_def init_def fresh_response_def res_write_def
        set_response_def set_add_def write_event_def)
  have p: "printable sample_payload" "all_finite sample_payload"
    by (simp_all add: sample_payload_def non_finite_def json_number_def json_int_frac_exp_def
        json_frac_exp_def json_exp_def is_numchar_def is_digit_def)
  have m: \<open>event_message ''request-created'' sample_payload ''2023-11-14T22:14:00.000Z''
      = ''{"type":"request-created","data":{"request_id":"DR-2024-000001","note":"5''
               @ [CHR 0x5C] @ ''" x 7'' @ [CHR 0x5C, CHR 0x5C, CHR 0x5C] @ ''n'' @ [CHR 0x5C]
               @ ''u001f","count":3,"ratio":1.5e+21,"tags":[true,null]},''
               @ ''"timestamp":"2023-11-14T22:14:00.000Z"}''\<close>
    by (simp add: event_message_def sample_payload_def quote_def quote_char_def hex_digit_def
        non_finite_def)
  have t: "trace (response (heap one_client 0))
             = [WroteHead 200, Wrote (connected_frame ''2023-11-14T22:13:20.000Z'')]"
    by (simp add: one_client_def get_events_def init_def fresh_response_def res_write_def
        set_response_def set_add_def)
  show ?thesis
    using a p broadcast_frame [OF a] by (simp add: m t)
qed

text \<open>
  C6 as stated does not hold: a payload that carries a number that is not finite, as a record
  created from a body with the literal \<^verbatim>\<open>1e999\<close> does, is sent with \<^verbatim>\<open>null\<close> in its place, so the
  \<open>data\<close> member of the frame is not the payload.
\<close>

theorem non_finite_number_is_sent_as_null:
  \<open>written (trace (response (heap (snd (broadcastToClients ''request-created'' overflow_payload
        ''2023-11-14T22:14:00.000Z'' one_client)) 0)))
     = [connected_frame ''2023-11-14T22:13:20.000Z'',
        ''event: request-created\<newline>'',
        ''data: {"type":"request-created","data":{"request_id":"DR-2024-000001","weight":null},"timestamp":"2023-11-14T22:14:00.000Z"}\<newline>\<newline>'']
   \<and> overflow_payload
       = JObj [(''request_id'', JStr ''DR-2024-000001''), (''weight'', JNum ''Infinity'')]
   \<and> json_parse ''{"type":"request-created","data":{"request_id":"DR-2024-000001","weight":null},"timestamp":"2023-11-14T22:14:00.000Z"}''
       = Some (JObj [(''type'', JStr ''request-created''),
                     (''data'', JObj [(''request_id'', JStr ''DR-2024-000001''), (''weight'', JNull)]),
                     (''timestamp'', JStr ''2023-11-14T22:14:00.000Z'')])\<close>
proof -
  have m: \<open>event_message ''request-created'' overflow_payload ''2023-11-14T22:14:00.000Z''
      = ''{"type":"request-created","data":{"request_id":"DR-2024-000001","weight":null},"timestamp":"2023-11-14T22:14:00.000Z"}''\<close>
    by (simp add: event_message_def overflow_payload_def quote_def quote_char_def non_finite_def)
  have "printable overflow_payload"
    by (simp add: overflow_payload_def non_finite_def)
  from event_message_parse [OF this, of "''request-created''" "''2023-11-14T22:14:00.000Z''"]
  have r: \<open>json_parse ''{"type":"request-created","data":{"request_id":"DR-2024-000001","weight":null},"timestamp":"2023-11-14T22:14:00.000Z"}''
       = Some (JObj [(''type'', JStr ''request-created''),
                     (''data'', JObj [(''request_id'', JStr ''DR-2024-000001''), (''weight'', JNull)]),
                     (''timestamp'', JStr ''2023-11-14T22:14:00.000Z'')])\<close>
    by (simp add: m) (simp add: overflow_payload_def non_finite_def)
  have w: \<open>written (trace (response (heap (snd (broadcastToClients ''request-created''
        overflow_payload ''2023-11-14T22:14:00.000Z'' one_client)) 0)))
     = [connected_frame ''2023-11-14T22:13:20.000Z'',
        ''event: request-created\<newline>'',
        ''data: '' @ event_message ''request-created'' overflow_payload ''2023-11-14T22:14:00.000Z''
          @ ''\<newline>\<newline>'']\<close>
    by (simp add: one_client_def get_events_def init_def fresh_response_def res_write_def
        set_response_def set_add_def broadcastToClients_def broadcast_client_def write_event_def)
  show ?thesis
    using r w by (simp add: m) (simp add: overflow_payload_def)
qed

subsection \<open>Statistics\<close>

lemma length_filter_enumerate:
  "length (filter (\<lambda>(k, r). P r) (enumerate n rs)) = length (filter P rs)"
  by (induction rs arbitrary: n) simp_all

text \<open>
  C7 (as the code has it). Read at one clock reading \<open>now\<close>, the statistics are: the number
  of registered clients, the number of them whose sink is not destroyed, and the number of
  them with \<open>now - lastPing > 60000\<close>: a client counts as old after one minute, whatever the
  five minutes of the reaper.
\<close>

theorem connection_stats:
  assumes "distinct (sseClients s)"
  shows "totalConnections (getConnectionStats (steady_clock now) s) = card (set (sseClients s))
    \<and> activeConnections (getConnectionStats (steady_clock now) s)
        = card {r \<in> set (sseClients s). \<not> destroyed (response (heap s r))}
    \<and> oldConnections (getConnectionStats (steady_clock now) s)
        = card {r \<in> set (sseClients s). now - lastPing (heap s r) > 60000}"
proof -
  have "{r \<in> set (sseClients s). \<not> destroyed (response (heap s r))}
          = {r. \<not> destroyed (response (heap s r))} \<inter> set (sseClients s)"
    and "{r \<in> set (sseClients s). now - lastPing (heap s r) > 60000}
          = {r. now - lastPing (heap s r) > 60000} \<inter> set (sseClients s)"
    by auto
  with assms show ?thesis
    by (simp add: getConnectionStats_def steady_clock_def length_filter_enumerate
        distinct_card distinct_length_filter)
qed

theorem connection_stats_witness:
  "distinct (sseClients two_clients)
   \<and> totalConnections (getConnectionStats (steady_clock 1700000060001) two_clients) = 2
   \<and> activeConnections (getConnectionStats (steady_clock 1700000060001) two_clients) = 2
   \<and> oldConnections (getConnectionStats (steady_clock 1700000060001) two_clients) = 2
   \<and> oldConnections (getConnectionStats (steady_clock 1700000060000) two_clients) = 0"
proof -
  have d: "distinct (sseClients two_clients)"
    by (simp add: two_clients_def one_client_def get_events_def init_def fresh_response_def
        res_write_def set_response_def set_add_def)
  show ?thesis
    using d connection_stats [OF d, of 1700000060001] connection_stats [OF d, of 1700000060000]
    by (simp add: two_clients_def one_client_def get_events_def init_def fresh_response_def
        res_write_def set_response_def set_add_def getConnectionStats_def steady_clock_def)
qed

text \<open>
  C7 as stated does not hold: two minutes after its admission a client is counted in
  \<open>oldConnections\<close>, while its age does not exceed the threshold of the reaper, which leaves it
  registered.
\<close>

theorem old_is_not_stale:
  "sseClients one_client = [0]
   \<and> lastPing (heap one_client 0) = 1700000000000
   \<and> oldConnections (getConnectionStats (steady_clock 1700000120000) one_client) = 1
   \<and> \<not> 1700000120000 - lastPing (heap one_client 0) > staleTimeout
   \<and> sseClients (snd (cleanupConnections 1700000120000 one_client)) = [0]"
  by (simp add: one_client_def get_events_def init_def fresh_response_def
      res_write_def set_response_def set_add_def getConnectionStats_def steady_clock_def
      staleTimeout_def cleanupConnections_def cleanup_client_def)

subsection \<open>Removal and the sink\<close>

lemma end_calls_heartbeat:
  "end_calls (trace (response (heap (snd (heartbeat r stamp now s)) r')))
     = end_calls (trace (response (heap s r')))"
  using end_calls_res_write [of "response (heap s r)" "heartbeat_frame stamp"]
  by (cases "res_write (response (heap s r)) (heartbeat_frame stamp)")
    (auto simp: heartbeat_def set_response_def split: option.splits)

lemma end_calls_broadcastToClients:
  "distinct (sseClients s) \<Longrightarrow>
   end_calls (trace (response (heap (snd (broadcastToClients t d stamp s)) r')))
     = end_calls (trace (response (heap s r')))"
  by (simp add: broadcastToClients_def forEach_broadcast end_calls_write_event)

lemma end_calls_sendToClient:
  "end_calls (trace (response (heap (snd (sendToClient clientId t d stamp s)) r')))
     = end_calls (trace (response (heap s r')))"
proof (cases "find (\<lambda>r. client_id (heap s r) = clientId) (sseClients s)")
  case None
  then show ?thesis by (simp add: sendToClient_def)
next
  case (Some r)
  show ?thesis
    using end_calls_write_event [of t "event_message t d stamp" "response (heap s r)"]
    by (cases "write_event t (event_message t d stamp) (response (heap s r))")
      (auto simp: sendToClient_def Some set_response_def split: option.splits)
qed

lemma end_calls_get_events:
  "end_calls (trace (response (heap (snd (get_events res t_id t_ping stamp s)) r')))
     = (if r' = next_ref s then end_calls (trace res) else end_calls (trace (response (heap s r'))))"
  using end_calls_res_write [of "res\<lparr>trace := trace res @ [WroteHead 200]\<rparr>" "connected_frame stamp"]
  by (cases "res_write (res\<lparr>trace := trace res @ [WroteHead 200]\<rparr>) (connected_frame stamp)")
    (auto simp: get_events_def Let_def set_response_def end_calls_append split: option.splits)

lemma end_calls_cleanupConnections:
  "distinct (sseClients s) \<Longrightarrow>
   end_calls (trace (response (heap (snd (cleanupConnections now s)) r')))
     = (if r' \<in> set (sseClients s) \<and> now - lastPing (heap s r') > 300000
           \<and> \<not> destroyed (response (heap s r'))
        then Suc (end_calls (trace (response (heap s r'))))
        else end_calls (trace (response (heap s r'))))"
  by (simp add: cleanupConnections_def forEach_cleanup staleTimeout_def res_end_def
      end_calls_append)

text \<open>
  C8 (as the code has it). The \<^verbatim>\<open>close\<close> handler, the \<^verbatim>\<open>error\<close> handler, a heartbeat whose write
  throws, a broadcast that finds the sink destroyed or throwing, and a \<^verbatim>\<open>sendToClient\<close> whose
  write throws discard the registry entry; a \<^verbatim>\<open>sendToClient\<close> that finds the sink destroyed
  changes nothing. Neither a heartbeat, a broadcast or a \<^verbatim>\<open>sendToClient\<close>, whatever becomes of
  its writes, nor a handler, nor the admission makes an \<^verbatim>\<open>end()\<close> call on any sink. The two
  handlers change no client object at all. The handlers and the failed heartbeat cancel the
  heartbeat timer of the client; broadcast and \<^verbatim>\<open>sendToClient\<close> leave the timers as they are.
  The reaper is the one path that calls \<^verbatim>\<open>end()\<close>: once on the sink of each registered client it
  finds stale with a sink that is not destroyed, on no other sink, and it removes the stale
  clients.
\<close>

theorem removal_does_not_close:
  "fst (on_close r s) = None \<and> r \<notin> set (sseClients (snd (on_close r s)))
     \<and> r \<notin> set (intervals (snd (on_close r s))) \<and> heap (snd (on_close r s)) = heap s
   \<and> fst (on_error r s) = None \<and> r \<notin> set (sseClients (snd (on_error r s)))
     \<and> r \<notin> set (intervals (snd (on_error r s))) \<and> heap (snd (on_error r s)) = heap s
   \<and> (fst (res_write (response (heap s r)) (heartbeat_frame stamp)) \<noteq> None \<longrightarrow>
        r \<notin> set (sseClients (snd (heartbeat r stamp now s)))
        \<and> r \<notin> set (intervals (snd (heartbeat r stamp now s))))
   \<and> (\<forall>r'. end_calls (trace (response (heap (snd (heartbeat r stamp now s)) r')))
              = end_calls (trace (response (heap s r'))))
   \<and> (distinct (sseClients s) \<longrightarrow>
        (r \<in> set (sseClients s)
           \<and> (destroyed (response (heap s r))
                \<or> fst (write_event t (event_message t d stamp) (response (heap s r))) \<noteq> None)
           \<longrightarrow> r \<notin> set (sseClients (snd (broadcastToClients t d stamp s))))
        \<and> intervals (snd (broadcastToClients t d stamp s)) = intervals s
        \<and> (\<forall>r'. end_calls (trace (response (heap (snd (broadcastToClients t d stamp s)) r')))
                 = end_calls (trace (response (heap s r')))))
   \<and> (find (\<lambda>r'. client_id (heap s r') = clientId) (sseClients s) = Some r
        \<and> \<not> destroyed (response (heap s r))
        \<and> fst (write_event t (event_message t d stamp) (response (heap s r))) \<noteq> None
        \<longrightarrow> r \<notin> set (sseClients (snd (sendToClient clientId t d stamp s))))
   \<and> (find (\<lambda>r'. client_id (heap s r') = clientId) (sseClients s) = Some r
        \<and> destroyed (response (heap s r))
        \<longrightarrow> snd (sendToClient clientId t d stamp s) = s)
   \<and> intervals (snd (sendToClient clientId t d stamp s)) = intervals s
   \<and> (\<forall>r'. end_calls (trace (response (heap (snd (sendToClient clientId t d stamp s)) r')))
              = end_calls (trace (response (heap s r'))))
   \<and> (\<forall>r'. end_calls (trace (response (heap (snd (get_events res t_id t_ping stamp s)) r')))
              = (if r' = next_ref s then end_calls (trace res)
                 else end_calls (trace (response (heap s r')))))
   \<and> (distinct (sseClients s) \<longrightarrow>
        sseClients (snd (cleanupConnections now s))
          = filter (\<lambda>r'. \<not> now - lastPing (heap s r') > 300000) (sseClients s)
        \<and> (\<forall>r'. end_calls (trace (response (heap (snd (cleanupConnections now s)) r')))
                 = (if r' \<in> set (sseClients s) \<and> now - lastPing (heap s r') > 300000
                       \<and> \<not> destroyed (response (heap s r'))
                    then Suc (end_calls (trace (response (heap s r'))))
                    else end_calls (trace (response (heap s r'))))))"
proof -
  have handlers:
    "fst (on_close r s) = None \<and> r \<notin> set (sseClients (snd (on_close r s)))
       \<and> r \<notin> set (intervals (snd (on_close r s))) \<and> heap (snd (on_close r s)) = heap s
     \<and> fst (on_error r s) = None \<and> r \<notin> set (sseClients (snd (on_error r s)))
       \<and> r \<notin> set (intervals (snd (on_error r s))) \<and> heap (snd (on_error r s)) = heap s"
    by (simp add: on_close_def on_error_def set_delete_def clearInterval_def)
  have beat: "r \<notin> set (sseClients (snd (heartbeat r stamp now s)))
        \<and> r \<notin> set (intervals (snd (heartbeat r stamp now s)))"
    if "fst (res_write (response (heap s r)) (heartbeat_frame stamp)) \<noteq> None"
    using that
    by (cases "res_write (response (heap s r)) (heartbeat_frame stamp)")
      (auto simp: heartbeat_def set_response_def set_delete_def clearInterval_def
        split: option.splits)
  have cast: "r \<notin> set (sseClients (snd (broadcastToClients t d stamp s)))"
    if "distinct (sseClients s)" "r \<in> set (sseClients s)"
      "destroyed (response (heap s r))
         \<or> fst (write_event t (event_message t d stamp) (response (heap s r))) \<noteq> None"
    using that by (auto simp: broadcastToClients_def forEach_broadcast)
  have cast_timers: "intervals (snd (broadcastToClients t d stamp s)) = intervals s"
    if "distinct (sseClients s)"
    using that by (simp add: broadcastToClients_def forEach_broadcast)
  have send: "r \<notin> set (sseClients (snd (sendToClient clientId t d stamp s)))"
    if "find (\<lambda>r'. client_id (heap s r') = clientId) (sseClients s) = Some r"
      "\<not> destroyed (response (heap s r))"
      "fst (write_event t (event_message t d stamp) (response (heap s r))) \<noteq> None"
    using that
    by (cases "write_event t (event_message t d stamp) (response (heap s r))")
      (auto simp: sendToClient_def set_response_def set_delete_def split: option.splits)
  have send_destroyed: "snd (sendToClient clientId t d stamp s) = s"
    if "find (\<lambda>r'. client_id (heap s r') = clientId) (sseClients s) = Some r"
      "destroyed (response (heap s r))"
    using that by (simp add: sendToClient_def)
  have send_timers: "intervals (snd (sendToClient clientId t d stamp s)) = intervals s"
  proof (cases "find (\<lambda>r'. client_id (heap s r') = clientId) (sseClients s)")
    case None
    then show ?thesis by (simp add: sendToClient_def)
  next
    case (Some r0)
    then show ?thesis
      by (cases "write_event t (event_message t d stamp) (response (heap s r0))")
        (auto simp: sendToClient_def set_response_def split: option.splits)
  qed
  have reap: "sseClients (snd (cleanupConnections now s))
          = filter (\<lambda>r'. \<not> now - lastPing (heap s r') > 300000) (sseClients s)"
    if "distinct (sseClients s)"
    using that
    by (simp add: cleanupConnections_def forEach_cleanup staleTimeout_def cong: filter_cong)
  show ?thesis
    using handlers beat cast cast_timers send send_destroyed send_timers reap
      end_calls_heartbeat end_calls_broadcastToClients end_calls_sendToClient
      end_calls_get_events end_calls_cleanupConnections
    by (intro conjI impI allI) blast+
qed

theorem removal_does_not_close_witness:
  "sseClients one_client = [0] \<and> intervals one_client = [0]
   \<and> sseClients (snd (on_close 0 one_client)) = []
   \<and> intervals (snd (on_close 0 one_client)) = []
   \<and> sseClients (snd (on_error 0 one_client)) = []
   \<and> intervals (snd (on_error 0 one_client)) = []
   \<and> fst (res_write (response (heap broken_client 0)) (heartbeat_frame ''2023-11-14T22:13:50.000Z''))
       = Some WriteError
   \<and> sseClients (snd (heartbeat 0 ''2023-11-14T22:13:50.000Z'' 1700000030000 broken_client)) = []
   \<and> intervals (snd (heartbeat 0 ''2023-11-14T22:13:50.000Z'' 1700000030000 broken_client)) = []
   \<and> end_calls (trace (response (heap (snd (heartbeat 0 ''2023-11-14T22:13:50.000Z''
         1700000030000 broken_client)) 0))) = 0
   \<and> distinct (sseClients two_sinks) \<and> 0 \<in> set (sseClients two_sinks)
   \<and> fst (write_event ''request-updated'' (event_message ''request-updated'' JNull
         ''2023-11-14T22:14:00.000Z'') (response (heap two_sinks 0))) = Some WriteError
   \<and> sseClients (snd (broadcastToClients ''request-updated'' JNull ''2023-11-14T22:14:00.000Z''
         two_sinks)) = [1]
   \<and> intervals (snd (broadcastToClients ''request-updated'' JNull ''2023-11-14T22:14:00.000Z''
         two_sinks)) = [0, 1]
   \<and> end_calls (trace (response (heap (snd (broadcastToClients ''request-updated'' JNull
         ''2023-11-14T22:14:00.000Z'' two_sinks)) 0))) = 0
   \<and> find (\<lambda>r'. client_id (heap two_sinks r') = 1700000000000) (sseClients two_sinks) = Some 0
   \<and> sseClients (snd (sendToClient 1700000000000 ''request-updated'' JNull
         ''2023-11-14T22:14:00.000Z'' two_sinks)) = [1]
   \<and> end_calls (trace (response (heap (snd (sendToClient 1700000000000 ''request-updated'' JNull
         ''2023-11-14T22:14:00.000Z'' two_sinks)) 0))) = 0
   \<and> find (\<lambda>r'. client_id (heap destroyed_client r') = 1700000000000)
         (sseClients destroyed_client) = Some 0
   \<and> destroyed (response (heap destroyed_client 0))
   \<and> sseClients (snd (sendToClient 1700000000000 ''request-updated'' JNull
         ''2023-11-14T22:14:00.000Z'' destroyed_client)) = [0]
   \<and> sseClients (snd (cleanupConnections 1700000301000 two_sinks)) = []
   \<and> end_calls (trace (response (heap (snd (cleanupConnections 1700000301000 two_sinks)) 0))) = 1
   \<and> end_calls (trace (response (heap (snd (cleanupConnections 1700000301000 two_sinks)) 1))) = 1"
  using removal_does_not_close [of 0 one_client "''2023-11-14T22:13:50.000Z''" 1700000030000
      "''request-updated''" JNull 1700000000000 fresh_response 0 0]
    removal_does_not_close [of 0 destroyed_client "''2023-11-14T22:14:00.000Z''" 1700000301000
      "''request-updated''" JNull 1700000000000 fresh_response 0 0]
    removal_does_not_close [of 0 broken_client "''2023-11-14T22:13:50.000Z''" 1700000030000
      "''request-updated''" JNull 1700000000000 fresh_response 0 0]
    removal_does_not_close [of 0 two_sinks "''2023-11-14T22:14:00.000Z''" 1700000301000
      "''request-updated''" JNull 1700000000000 fresh_response 0 0]
  by (simp add: one_client_def two_sinks_def broken_client_def broken_response_def
      destroyed_client_def get_events_def init_def fresh_response_def res_write_def
      set_response_def set_add_def write_event_def on_close_def on_error_def set_delete_def
      heartbeat_def clearInterval_def broadcastToClients_def broadcast_client_def
      cleanupConnections_def cleanup_client_def staleTimeout_def res_end_def sendToClient_def)

text \<open>
  C8 as stated does not hold: the \<^verbatim>\<open>close\<close> handler removes the client and no \<^verbatim>\<open>end()\<close> call has
  been made on its sink.
\<close>

theorem close_handler_makes_no_end_call:
  "sseClients one_client = [0]
   \<and> sseClients (snd (on_close 0 one_client)) = []
   \<and> end_calls (trace (response (heap (snd (on_close 0 one_client)) 0))) = 0"
  by (simp add: one_client_def get_events_def init_def fresh_response_def res_write_def
      set_response_def set_add_def on_close_def set_delete_def)

subsection \<open>The registry invariant\<close>

text \<open>
  The invariant holds when the module is loaded and every entry point of the module keeps
  it, so the theorems above that assume a registry without repetition apply in every state
  the module reaches.
\<close>

lemma registry_ok_init: "registry_ok init"
  by (simp add: registry_ok_def init_def)

lemma registry_ok_get_events:
  "registry_ok s \<Longrightarrow> registry_ok (snd (get_events res t_id t_ping stamp s))"
  by (cases "res_write (res\<lparr>trace := trace res @ [WroteHead 200]\<rparr>) (connected_frame stamp)")
    (auto simp: registry_ok_def get_events_def Let_def set_response_def set_add_def list_all_iff
      split: option.splits)

lemma registry_ok_heartbeat:
  "registry_ok s \<Longrightarrow> registry_ok (snd (heartbeat r stamp now s))"
  by (cases "res_write (response (heap s r)) (heartbeat_frame stamp)")
    (auto simp: registry_ok_def heartbeat_def set_response_def set_delete_def list_all_iff distinct_removeAll
      split: option.splits)

lemma registry_ok_handlers:
  "registry_ok s \<Longrightarrow> registry_ok (snd (on_close r s)) \<and> registry_ok (snd (on_error r s))"
  by (auto simp: registry_ok_def on_close_def on_error_def set_delete_def list_all_iff distinct_removeAll)

lemma registry_ok_broadcastToClients:
  "registry_ok s \<Longrightarrow> registry_ok (snd (broadcastToClients t d stamp s))"
  by (auto simp: registry_ok_def broadcastToClients_def forEach_broadcast list_all_iff)

lemma registry_ok_sendToClient:
  "registry_ok s \<Longrightarrow> registry_ok (snd (sendToClient clientId t d stamp s))"
  by (auto simp: registry_ok_def sendToClient_def set_response_def set_delete_def list_all_iff distinct_removeAll
      split: option.splits prod.splits)

lemma registry_ok_cleanupConnections:
  "registry_ok s \<Longrightarrow> registry_ok (snd (cleanupConnections now s))"
  by (auto simp: registry_ok_def cleanupConnections_def forEach_cleanup list_all_iff)

section \<open>Properties of routes/requests.js\<close>

subsection \<open>Objects and arrays\<close>

lemma map_of_insert_index:
  "k \<notin> fst ` set kvs \<Longrightarrow> map_of (insert_index k v kvs) = (map_of kvs)(k \<mapsto> v)"
  by (induction kvs) (auto simp: fun_upd_twist)

lemma map_of_set_prop: "map_of (set_prop k v obj) = (map_of obj)(k \<mapsto> v)"
proof -
  have "map_of (obj @ [(k, v)]) = (map_of obj)(k \<mapsto> v)" if "k \<notin> fst ` set obj"
    using that by (induction obj) (auto simp: fun_upd_twist)
  then show ?thesis
    by (simp add: set_prop_def map_of_insert_index update_conv')
qed

lemma keys_set_prop: "fst ` set (set_prop k v obj) = insert k (fst ` set obj)"
  by (simp add: dom_map_of_conv_image_fst [symmetric] map_of_set_prop)

lemma keys_spread: "fst ` set (spread base extra) = fst ` set base \<union> fst ` set extra"
  unfolding spread_def
  by (induction extra arbitrary: base) (simp_all add: keys_set_prop case_prod_beta)

lemma map_of_spread_other:
  "k \<notin> fst ` set extra \<Longrightarrow> map_of (spread base extra) k = map_of base k"
  unfolding spread_def
  by (induction extra arbitrary: base) (simp_all add: map_of_set_prop case_prod_beta)

lemma findIndex_Some:
  "findIndex p xs = Some i \<Longrightarrow> i < length xs \<and> p (xs ! i)"
  by (induction xs arbitrary: i) (auto split: if_splits option.splits)

lemma findIndex_None:
  "findIndex p xs = None \<longleftrightarrow> (\<forall>x \<in> set xs. \<not> p x)"
  by (induction xs) (auto split: option.splits)

lemma keys_update: "fst ` set (AList.update k v al) = insert k (fst ` set al)"
  by (induction al) auto

lemma keys_delete: "fst ` set (AList.delete k al) = fst ` set al - {k}"
  by (induction al) auto

subsection \<open>The read-only fields of an update\<close>

lemma updateData_keys:
  "fst ` set (updateData b stamp)
     = insert ''updated_at'' (fst ` set b) - {''request_id''} - {''created_at''}"
  by (simp only: updateData_def keys_delete keys_set_prop keys_spread) simp

lemma updateData_read_only:
  "map_of (updateData b stamp) ''request_id'' = None"
  "map_of (updateData b stamp) ''created_at'' = None"
  by (simp_all only: map_of_eq_None_iff updateData_keys) simp_all

lemma spread_updateData:
  assumes "k \<notin> fst ` set b \<and> k \<noteq> ''updated_at'' \<or> k = ''request_id'' \<or> k = ''created_at''"
  shows "map_of (spread row (updateData b stamp)) k = map_of row k"
proof (rule map_of_spread_other)
  show "k \<notin> fst ` set (updateData b stamp)"
    using assms unfolding updateData_keys by blast
qed

lemma put_route_sent:
  "q \<in> set (sent (put_route e ident b stamp mock)) \<Longrightarrow> q = Update (updateData b stamp) ident"
  by (simp add: put_route_def Let_def split: option.splits sum.splits if_splits)

lemma put_route_mock:
  assumes "supabase e = None"
    and "findIndex (\<lambda>req. map_of req ''request_id'' = Some (JStr ident)) mock = Some i"
  shows "mockRequests (put_route e ident b stamp mock)
           = mock[i := spread (mock ! i) (updateData b stamp)]"
  using assms by (simp add: put_route_def Let_def split: sum.splits)

lemma put_route_mock_missing:
  assumes "supabase e = None"
    and "findIndex (\<lambda>req. map_of req ''request_id'' = Some (JStr ident)) mock = None"
  shows "mockRequests (put_route e ident b stamp mock) = mock"
  using assms by (simp add: put_route_def Let_def)

text \<open>
  C10. Whatever the body, the payload of the update carries neither \<^verbatim>\<open>request_id\<close> nor
  \<^verbatim>\<open>created_at\<close>, and it is the only thing the route sends to Supabase. On the mock store, when
  the request exists, the route replaces this one record, whose \<^verbatim>\<open>request_id\<close> and
  \<^verbatim>\<open>created_at\<close> are as before, as is every member that is neither in the body nor
  \<^verbatim>\<open>updated_at\<close>; every other record is as before. When it does not exist, the store is as
  before.
\<close>

theorem put_keeps_read_only_fields:
  "map_of (updateData b stamp) ''request_id'' = None
   \<and> map_of (updateData b stamp) ''created_at'' = None
   \<and> (\<forall>q \<in> set (sent (put_route e ident b stamp mock)). q = Update (updateData b stamp) ident)
   \<and> (supabase e = None \<longrightarrow>
        (\<forall>i. findIndex (\<lambda>req. map_of req ''request_id'' = Some (JStr ident)) mock = Some i \<longrightarrow>
           i < length mock
           \<and> length (mockRequests (put_route e ident b stamp mock)) = length mock
           \<and> map_of (mockRequests (put_route e ident b stamp mock) ! i) ''request_id''
               = map_of (mock ! i) ''request_id''
           \<and> map_of (mock ! i) ''request_id'' = Some (JStr ident)
           \<and> map_of (mockRequests (put_route e ident b stamp mock) ! i) ''created_at''
               = map_of (mock ! i) ''created_at''
           \<and> (\<forall>k. k \<notin> fst ` set b \<and> k \<noteq> ''updated_at'' \<longrightarrow>
                 map_of (mockRequests (put_route e ident b stamp mock) ! i) k
                   = map_of (mock ! i) k)
           \<and> (\<forall>j. j \<noteq> i \<longrightarrow> mockRequests (put_route e ident b stamp mock) ! j = mock ! j))
        \<and> (findIndex (\<lambda>req. map_of req ''request_id'' = Some (JStr ident)) mock = None \<longrightarrow>
             mockRequests (put_route e ident b stamp mock) = mock))"
proof (intro conjI impI allI ballI)
  fix q assume "q \<in> set (sent (put_route e ident b stamp mock))"
  then show "q = Update (updateData b stamp) ident" by (rule put_route_sent)
next
  assume "supabase e = None"
    and "findIndex (\<lambda>req. map_of req ''request_id'' = Some (JStr ident)) mock = None"
  then show "mockRequests (put_route e ident b stamp mock) = mock"
    by (rule put_route_mock_missing)
next
  fix i
  assume e: "supabase e = None"
    and f: "findIndex (\<lambda>req. map_of req ''request_id'' = Some (JStr ident)) mock = Some i"
  note new = put_route_mock [OF e f]
  from findIndex_Some [OF f]
  show i: "i < length mock" and "map_of (mock ! i) ''request_id'' = Some (JStr ident)"
    by simp_all
  show "length (mockRequests (put_route e ident b stamp mock)) = length mock"
    by (simp add: new)
  show "map_of (mockRequests (put_route e ident b stamp mock) ! i) ''request_id''
          = map_of (mock ! i) ''request_id''"
    using i by (simp add: new spread_updateData)
  show "map_of (mockRequests (put_route e ident b stamp mock) ! i) ''created_at''
          = map_of (mock ! i) ''created_at''"
    using i by (simp add: new spread_updateData)
  show "map_of (mockRequests (put_route e ident b stamp mock) ! i) k = map_of (mock ! i) k"
    if "k \<notin> fst ` set b \<and> k \<noteq> ''updated_at''" for k
    using i that by (simp add: new spread_updateData)
  show "mockRequests (put_route e ident b stamp mock) ! j = mock ! j" if "j \<noteq> i" for j
    using that by (simp add: new)
qed (rule updateData_read_only)+

theorem put_keeps_read_only_fields_witness:
  "supabase on_mock = None
   \<and> findIndex (\<lambda>req. map_of req ''request_id'' = Some (JStr ''DR-2024-001234''))
        [mock_record] = Some 0
   \<and> mockRequests (put_route on_mock ''DR-2024-001234''
        [(''request_id'', JStr ''DR-0000-000000''), (''created_at'', JStr ''1999-01-01T00:00:00.000Z''),
         (''status'', JStr ''completed'')] ''2024-02-01T09:00:00.000Z'' [mock_record])
     = [[(''request_id'', JStr ''DR-2024-001234''), (''clientName'', JStr ''John Smith''),
         (''status'', JStr ''completed''), (''created_at'', JStr ''2024-01-10T10:30:00.000Z''),
         (''updated_at'', JStr ''2024-02-01T09:00:00.000Z'')]]
   \<and> sent (put_route (on_supabase empty_table) ''DR-2024-001234''
        [(''request_id'', JStr ''DR-0000-000000''), (''created_at'', JStr ''1999-01-01T00:00:00.000Z''),
         (''status'', JStr ''completed'')] ''2024-02-01T09:00:00.000Z'' [])
     = [Update [(''status'', JStr ''completed''), (''updated_at'', JStr ''2024-02-01T09:00:00.000Z'')]
          ''DR-2024-001234'']"
  using put_keeps_read_only_fields [of
      "[(''request_id'', JStr ''DR-0000-000000''), (''created_at'', JStr ''1999-01-01T00:00:00.000Z''),
        (''status'', JStr ''completed'')]" "''2024-02-01T09:00:00.000Z''" on_mock "''DR-2024-001234''"
      "[mock_record]"]
  by (simp add: on_mock_def on_supabase_def empty_table_def mock_record_def put_route_def
      updateData_def spread_def set_prop_def is_index_def is_digit_def notify_def
      updated_payload_def get_prop_def interpolate_def Let_def)

subsection \<open>The broadcasts of the three routes\<close>

text \<open>
  With the events module loaded, each route calls \<^verbatim>\<open>broadcastToClients\<close> at most once, with its
  event type, and not at all when validation rejects the body or throws, when the store
  reports an error, or when the route answers 404. When the store reports success, the
  create and the update routes make the call with the record unless the template literal of
  the message throws; the delete route makes it with the identifier.
\<close>

lemma post_route_rejected:
  "validateRequest isValidDate b \<noteq> Next \<Longrightarrow>
   broadcasts (post_route e isValidDate b rid stamp1 stamp2 mock) = []
   \<and> mockRequests (post_route e isValidDate b rid stamp1 stamp2 mock) = mock
   \<and> sent (post_route e isValidDate b rid stamp1 stamp2 mock) = []"
  by (cases "validateRequest isValidDate b") (simp_all add: post_route_def)

lemma post_route_mock:
  assumes "validateRequest isValidDate b = Next" and "supabase e = None" and "sseEvents e"
  shows "mockRequests (post_route e isValidDate b rid stamp1 stamp2 mock)
           = requestData b rid stamp1 stamp2 # mock
         \<and> broadcasts (post_route e isValidDate b rid stamp1 stamp2 mock)
             = (case created_payload (JObj (requestData b rid stamp1 stamp2)) of
                  Inl err \<Rightarrow> []
                | Inr payload \<Rightarrow> [(''request-created'', payload)])"
  using assms by (simp add: post_route_def post_handler_def Let_def notify_def split: sum.splits)

lemma post_route_supabase:
  assumes "validateRequest isValidDate b = Next" and "supabase e = Some client" and "sseEvents e"
  shows "sent (post_route e isValidDate b rid stamp1 stamp2 mock)
           = [Insert (requestData b rid stamp1 stamp2)]
         \<and> broadcasts (post_route e isValidDate b rid stamp1 stamp2 mock)
             = (if error (client (Insert (requestData b rid stamp1 stamp2))) = None
                then (case created_payload
                             (data (client (Insert (requestData b rid stamp1 stamp2)))) of
                        Inl err \<Rightarrow> []
                      | Inr payload \<Rightarrow> [(''request-created'', payload)])
                else [])"
  using assms
  by (simp add: post_route_def post_handler_def Let_def notify_def
      split: sum.splits option.splits)

lemma put_route_supabase:
  assumes "supabase e = Some client" and "sseEvents e"
  shows "broadcasts (put_route e ident b stamp mock)
           = (if error (client (Update (updateData b stamp) ident)) = None
              then (case updated_payload (data (client (Update (updateData b stamp) ident))) of
                      Inl err \<Rightarrow> []
                    | Inr payload \<Rightarrow> [(''request-updated'', payload)])
              else [])"
  using assms
  by (simp add: put_route_def Let_def notify_def split: sum.splits option.splits)

lemma put_route_mock_broadcasts:
  assumes "supabase e = None" and "sseEvents e"
  shows "broadcasts (put_route e ident b stamp mock)
           = (case findIndex (\<lambda>req. map_of req ''request_id'' = Some (JStr ident)) mock of
                None \<Rightarrow> []
              | Some i \<Rightarrow>
                  (case updated_payload (JObj (spread (mock ! i) (updateData b stamp))) of
                     Inl err \<Rightarrow> []
                   | Inr payload \<Rightarrow> [(''request-updated'', payload)]))"
  using assms
  by (simp add: put_route_def Let_def notify_def split: sum.splits option.splits)

text \<open>
  The message of a record that is an object, whose \<^verbatim>\<open>request_id\<close> and \<^verbatim>\<open>status\<close> are strings,
  numbers, booleans, \<^verbatim>\<open>null\<close> or missing, is built without an exception.
\<close>

lemma interpolate_plain: "plain p \<Longrightarrow> \<exists>text. interpolate p = Inr text"
  by (cases p; cases "the p") (simp_all add: plain_def interpolate_def)

lemma created_payload_plain:
  "plain (map_of row ''request_id'') \<Longrightarrow>
   \<exists>text. created_payload (JObj row)
            = Inr (JObj [(''request'', JObj row), (''message'', JStr text)])"
  using interpolate_plain [of "map_of row ''request_id''"]
  by (auto simp: created_payload_def get_prop_def)

lemma updated_payload_plain:
  "plain (map_of row ''request_id'') \<Longrightarrow> plain (map_of row ''status'') \<Longrightarrow>
   \<exists>text. updated_payload (JObj row)
            = Inr (JObj [(''request'', JObj row), (''message'', JStr text)])"
  using interpolate_plain [of "map_of row ''request_id''"]
    interpolate_plain [of "map_of row ''status''"]
  by (auto simp: updated_payload_def get_prop_def)

text \<open>
  A create whose body carries, as \<^verbatim>\<open>request_id\<close>, an object with a member \<^verbatim>\<open>toString\<close>: the store
  takes the record, the template literal throws, and the route answers 500 with no
  broadcast.
\<close>

lemma post_route_stores_then_throws:
  "validateRequest (\<lambda>date. Inr True) (valid_body @ [(''request_id'', JObj [(''toString'', JNull)])])
     = Next
   \<and> mockRequests (post_route on_mock (\<lambda>date. Inr True)
         (valid_body @ [(''request_id'', JObj [(''toString'', JNull)])])
         ''DR-2024-000001'' ''2024-02-01T09:00:00.000Z'' ''2024-02-01T09:00:00.001Z'' [])
       = [valid_body @ [(''request_id'', JObj [(''toString'', JNull)]),
                        (''status'', JStr ''pending''),
                        (''created_at'', JStr ''2024-02-01T09:00:00.000Z''),
                        (''updated_at'', JStr ''2024-02-01T09:00:00.001Z'')]]
   \<and> status (reply (post_route on_mock (\<lambda>date. Inr True)
         (valid_body @ [(''request_id'', JObj [(''toString'', JNull)])])
         ''DR-2024-000001'' ''2024-02-01T09:00:00.000Z'' ''2024-02-01T09:00:00.001Z'' [])) = 500
   \<and> broadcasts (post_route on_mock (\<lambda>date. Inr True)
         (valid_body @ [(''request_id'', JObj [(''toString'', JNull)])])
         ''DR-2024-000001'' ''2024-02-01T09:00:00.000Z'' ''2024-02-01T09:00:00.001Z'' []) = []"
proof -
  have v: "validateRequest (\<lambda>date. Inr True)
             (valid_body @ [(''request_id'', JObj [(''toString'', JNull)])]) = Next"
    by (simp add: validateRequest_def valid_body_def pushes_def too_short_def not_email_def
        not_date_def invalid_def truthy_def trim_def is_space_def isValidEmail_def
        isValidServiceType_def isValidTime_def)
  have r: "requestData (valid_body @ [(''request_id'', JObj [(''toString'', JNull)])])
             ''DR-2024-000001'' ''2024-02-01T09:00:00.000Z'' ''2024-02-01T09:00:00.001Z''
           = valid_body @ [(''request_id'', JObj [(''toString'', JNull)]),
                           (''status'', JStr ''pending''),
                           (''created_at'', JStr ''2024-02-01T09:00:00.000Z''),
                           (''updated_at'', JStr ''2024-02-01T09:00:00.001Z'')]"
    by (simp add: requestData_def valid_body_def spread_def set_prop_def is_index_def
        is_digit_def truthy_def)
  have p: "created_payload (JObj (valid_body @ [(''request_id'', JObj [(''toString'', JNull)]),
                           (''status'', JStr ''pending''),
                           (''created_at'', JStr ''2024-02-01T09:00:00.000Z''),
                           (''updated_at'', JStr ''2024-02-01T09:00:00.001Z'')]))
           = Inl (TypeError ''Cannot convert object to primitive value'')"
    by (simp add: created_payload_def get_prop_def interpolate_def valid_body_def)
  show ?thesis
    by (simp add: v post_route_def post_handler_def Let_def r p on_mock_def notify_def
        failed_def)
qed

lemma delete_route_supabase:
  assumes "supabase e = Some client" and "sseEvents e"
  shows "broadcasts (delete_route e ident mock)
           = (if error (client (Delete ident)) = None
              then [(''request-deleted'', deleted_payload ident)] else [])"
  using assms by (auto simp: delete_route_def Let_def announce_def split: option.splits)

lemma delete_route_mock:
  assumes "supabase e = None" and "sseEvents e"
  shows "broadcasts (delete_route e ident mock)
           = (if \<exists>req \<in> set mock. map_of req ''request_id'' = Some (JStr ident)
              then [(''request-deleted'', deleted_payload ident)] else [])"
proof (cases "findIndex (\<lambda>req. map_of req ''request_id'' = Some (JStr ident)) mock")
  case None
  with assms show ?thesis
    by (simp add: delete_route_def) (simp add: findIndex_None)
next
  case (Some i)
  from findIndex_Some [OF Some]
  have "\<exists>req \<in> set mock. map_of req ''request_id'' = Some (JStr ident)"
    by (meson nth_mem)
  with assms Some show ?thesis
    by (simp add: delete_route_def announce_def)
qed

text \<open>
  C2. A mutation whose target id is not found is meant to broadcast nothing. On Supabase
  the delete route sends the filtered delete and looks at \<^verbatim>\<open>error\<close> only: for an id that no row
  has, the store reports no error, and the route broadcasts \<^verbatim>\<open>request-deleted\<close> and answers 200.
  The same request on the mock store, and the update of the same id on Supabase, answer 404
  and broadcast nothing.
\<close>

theorem delete_of_missing_id_broadcasts:
  "broadcasts (delete_route (on_supabase empty_table) ''DR-2024-999999'' [])
     = [(''request-deleted'',
         JObj [(''request_id'', JStr ''DR-2024-999999''),
               (''message'', JStr ''Request DR-2024-999999 has been deleted'')])]
   \<and> status (reply (delete_route (on_supabase empty_table) ''DR-2024-999999'' [])) = 200
   \<and> broadcasts (delete_route on_mock ''DR-2024-999999'' [mock_record]) = []
   \<and> status (reply (delete_route on_mock ''DR-2024-999999'' [mock_record])) = 404
   \<and> broadcasts (put_route (on_supabase empty_table) ''DR-2024-999999'' []
        ''2024-02-01T09:00:00.000Z'' []) = []
   \<and> status (reply (put_route (on_supabase empty_table) ''DR-2024-999999'' []
        ''2024-02-01T09:00:00.000Z'' [])) = 404"
  by (simp add: delete_route_def put_route_def on_supabase_def on_mock_def empty_table_def
      mock_record_def announce_def deleted_payload_def deleted_def not_found_def Let_def)

end
